theory Spec2Isabelle
  imports Main "HOL-Library.Sublist" "HOL-Library.Char_ord" "HOL-Library.List_Lexorder"
    "HOL-Library.Multiset"
begin

section \<open>Python string primitives used by jar2native.py\<close>

text \<open>
  Text is a \<^typ>\<open>string\<close>; a character stands for a code point below 256. The order on
  strings is the lexicographic order on code points, which is the order Python's
  \<^verbatim>\<open>sorted\<close> uses on \<^verbatim>\<open>str\<close>.
\<close>

definition isspace :: "char \<Rightarrow> bool" where
  \<comment> \<open>\<^verbatim>\<open>str.isspace\<close> on one character: TAB, LF, VT, FF, CR, FS, GS, RS, US, SPACE, NEL, NBSP\<close>
  "isspace c = (c \<in> set [CHR 0x09, CHR 0x0A, CHR 0x0B, CHR 0x0C, CHR 0x0D, CHR 0x1C,
                          CHR 0x1D, CHR 0x1E, CHR 0x1F, CHR 0x20, CHR 0x85, CHR 0xA0])"

definition strip :: "string \<Rightarrow> string" where
  \<comment> \<open>\<^verbatim>\<open>s.strip()\<close>\<close>
  "strip s = rev (dropWhile isspace (rev (dropWhile isspace s)))"

definition is_linebreak :: "char \<Rightarrow> bool" where
  \<comment> \<open>the line boundaries of \<^verbatim>\<open>str.splitlines\<close> below 256: LF, VT, FF, CR, FS, GS, RS, NEL\<close>
  "is_linebreak c = (c \<in> set [CHR 0x0A, CHR 0x0B, CHR 0x0C, CHR 0x0D, CHR 0x1C,
                               CHR 0x1D, CHR 0x1E, CHR 0x85])"

fun splitlines_from :: "string \<Rightarrow> string \<Rightarrow> string list" where
  \<comment> \<open>the first argument is the current line so far, reversed\<close>
  "splitlines_from cur [] = (if cur = [] then [] else [rev cur])"
| "splitlines_from cur (c # cs) =
     (if c = CHR 0x0D \<and> cs \<noteq> [] \<and> hd cs = CHR 0x0A then rev cur # splitlines_from [] (tl cs)
      else if is_linebreak c then rev cur # splitlines_from [] cs
      else splitlines_from (c # cur) cs)"

definition splitlines :: "string \<Rightarrow> string list" where
  \<comment> \<open>\<^verbatim>\<open>s.splitlines()\<close>: CR LF is one boundary, no empty last line\<close>
  "splitlines s = splitlines_from [] s"

fun split_chr :: "char \<Rightarrow> string \<Rightarrow> string list" where
  \<comment> \<open>\<^verbatim>\<open>s.split(sep)\<close> for a one-character separator: never the empty list\<close>
  "split_chr sep [] = [[]]"
| "split_chr sep (c # cs) =
     (if c = sep then [] # split_chr sep cs
      else (case split_chr sep cs of [] \<Rightarrow> [[c]] | p # ps \<Rightarrow> (c # p) # ps))"

fun join :: "string \<Rightarrow> string list \<Rightarrow> string" where
  \<comment> \<open>\<^verbatim>\<open>sep.join(xs)\<close>\<close>
  "join sep [] = []"
| "join sep [x] = x"
| "join sep (x # y # ys) = x @ sep @ join sep (y # ys)"

definition str_in :: "string \<Rightarrow> string \<Rightarrow> bool" where
  \<comment> \<open>\<^verbatim>\<open>needle in hay\<close>: a contiguous substring\<close>
  "str_in needle hay = sublist needle hay"

definition endswith :: "string \<Rightarrow> string \<Rightarrow> bool" where
  \<comment> \<open>\<^verbatim>\<open>s.endswith(suf)\<close>\<close>
  "endswith s suf = suffix suf s"

definition index_chr :: "char \<Rightarrow> string \<Rightarrow> nat" where
  \<comment> \<open>\<^verbatim>\<open>s.index(c)\<close> where the caller has checked \<^verbatim>\<open>c in s\<close>\<close>
  "index_chr c s = length (takeWhile (\<lambda>d. d \<noteq> c) s)"

definition slice :: "nat \<Rightarrow> nat \<Rightarrow> string \<Rightarrow> string" where
  \<comment> \<open>\<^verbatim>\<open>s[a:b]\<close> for indices within the string: empty when \<^verbatim>\<open>b <= a\<close>\<close>
  "slice a b s = take (b - a) (drop a s)"

definition lower_chr :: "char \<Rightarrow> char" where
  \<comment> \<open>\<^verbatim>\<open>str.lower\<close> on one character: A-Z, and the Latin-1 capitals C0-DE without D7\<close>
  "lower_chr c =
     (let n = (of_char c :: nat)
      in if (65 \<le> n \<and> n \<le> 90) \<or> (192 \<le> n \<and> n \<le> 222 \<and> n \<noteq> 215) then char_of (n + 32) else c)"

definition lower :: "string \<Rightarrow> string" where
  "lower s = map lower_chr s"

definition py_sorted_set :: "string list \<Rightarrow> string list" where
  \<comment> \<open>\<^verbatim>\<open>sorted(set(xs))\<close>: the distinct elements in ascending order\<close>
  "py_sorted_set xs = sort (remdups xs)"

section \<open>Errors\<close>

datatype error =
    CalledProcessError      \<comment> \<open>a subprocess ran and exited non-zero\<close>
  | OSError                 \<comment> \<open>a subprocess could not be started, or a file operation failed\<close>
  | BadZipFile              \<comment> \<open>\<^verbatim>\<open>zipfile.ZipFile\<close> could not read the archive\<close>
  | InputNotFound           \<comment> \<open>\<^verbatim>\<open>FileNotFoundError("Input file not found")\<close>\<close>
  | UnsupportedInputType    \<comment> \<open>\<^verbatim>\<open>ValueError("Only JAR and WAR files are supported")\<close>\<close>
  | MissingEntryPoint       \<comment> \<open>\<^verbatim>\<open>ValueError("JAR file missing Main-Class attribute")\<close>\<close>
  | JDKNotFound             \<comment> \<open>\<^verbatim>\<open>RuntimeError("JDK not found")\<close>\<close>
  | PermissionDenied        \<comment> \<open>\<^verbatim>\<open>RuntimeError("Permission denied while copying JRE")\<close>\<close>
  | FileExistsError
  | PermissionError
  | UnboundLocalError
  | BundlerError            \<comment> \<open>whatever \<^verbatim>\<open>PyInstaller.__main__.run\<close> raises\<close>

datatype proc_failure =
    NonZeroExit             \<comment> \<open>the subprocess ran and exited non-zero\<close>
  | CannotStart             \<comment> \<open>the subprocess could not be started\<close>

section \<open>ModuleAnalyzer: the pure parts\<close>

definition DEFAULT_MODULES :: string where
  "DEFAULT_MODULES = ''java.instrument,java.base,java.logging''"

definition bracketed :: "string \<Rightarrow> string option" where
  \<comment> \<open>one line of \<^verbatim>\<open>_parse_list_deps\<close>: the text between the first [ and the first ]\<close>
  "bracketed line =
     (if CHR ''['' \<in> set line \<and> CHR '']'' \<in> set line
      then Some (slice (index_chr CHR ''['' line + 1) (index_chr CHR '']'' line) line)
      else None)"

definition list_deps_modules :: "string \<Rightarrow> string list" where
  \<comment> \<open>the set \<^verbatim>\<open>modules\<close> of \<^verbatim>\<open>_parse_list_deps\<close>, in the order it is serialised\<close>
  "list_deps_modules output =
     py_sorted_set (''java.base'' # List.map_filter bracketed (splitlines output))"

definition parse_list_deps :: "string \<Rightarrow> string" where
  "parse_list_deps output = join '','' (list_deps_modules output)"

definition merged_names :: "string \<Rightarrow> string list \<Rightarrow> string list" where
  \<comment> \<open>\<^verbatim>\<open>sorted(m.strip() for m in modules if m.strip())\<close> over the set
      \<^verbatim>\<open>set(analyzed.split(",")) | set(extra)\<close>\<close>
  "merged_names analyzed extra =
     sort (map strip (filter (\<lambda>m. strip m \<noteq> []) (remdups (split_chr CHR '','' analyzed @ extra))))"

definition merge_modules :: "string \<Rightarrow> string list \<Rightarrow> string" where
  "merge_modules analyzed extra = join '','' (merged_names analyzed extra)"

definition all_module_names :: "string \<Rightarrow> string list" where
  \<comment> \<open>\<^verbatim>\<open>sorted({line.split("@")[0] for line in out.splitlines() if line.strip()})\<close>\<close>
  "all_module_names out =
     py_sorted_set (map (\<lambda>line. hd (split_chr CHR ''@'' line))
                        (filter (\<lambda>line. strip line \<noteq> []) (splitlines out)))"

section \<open>Paths, the disk and the external tools\<close>

definition path_join :: "string \<Rightarrow> string \<Rightarrow> string" where
  \<comment> \<open>\<^verbatim>\<open>str(Path(a) / b)\<close> for a directory \<open>a\<close> in pathlib's normal form and a relative \<open>b\<close>\<close>
  "path_join a b = a @ ''/'' @ b"

definition path_text :: "string \<Rightarrow> string" where
  \<comment> \<open>\<^verbatim>\<open>str(Path(p))\<close> as far as trailing slashes go: they are dropped, the root stays,
      the empty path is \<^verbatim>\<open>.\<close>\<close>
  "path_text p =
     (let q = rev (dropWhile (\<lambda>c. c = CHR ''/'') (rev p))
      in if q \<noteq> [] then q else if p = [] then ''.'' else ''/'')"

definition path_name :: "string \<Rightarrow> string" where
  \<comment> \<open>\<^verbatim>\<open>Path(p).name\<close>: the last component\<close>
  "path_name p = rev (takeWhile (\<lambda>c. c \<noteq> CHR ''/'') (rev p))"

definition rfind_dot :: "string \<Rightarrow> nat option" where
  \<comment> \<open>\<^verbatim>\<open>name.rfind('.')\<close>, \<open>None\<close> for -1\<close>
  "rfind_dot name =
     (if CHR ''.'' \<in> set name
      then Some (length name - Suc (length (takeWhile (\<lambda>c. c \<noteq> CHR ''.'') (rev name))))
      else None)"

definition name_suffix :: "string \<Rightarrow> string" where
  \<comment> \<open>pathlib's \<^verbatim>\<open>suffix\<close> of a file name:
      \<^verbatim>\<open>i = name.rfind('.'); name[i:] if 0 < i < len(name) - 1 else ''\<close>\<close>
  "name_suffix name =
     (case rfind_dot name of
        None \<Rightarrow> []
      | Some i \<Rightarrow> if 0 < i \<and> Suc i < length name then drop i name else [])"

definition path_suffix :: "string \<Rightarrow> string" where
  \<comment> \<open>\<^verbatim>\<open>Path(p).suffix\<close>\<close>
  "path_suffix p = name_suffix (path_name p)"

definition path_stem :: "string \<Rightarrow> string" where
  \<comment> \<open>\<^verbatim>\<open>Path(p).stem\<close>: the name without its suffix\<close>
  "path_stem p = take (length (path_name p) - length (path_suffix p)) (path_name p)"

definition path_parent :: "string \<Rightarrow> string" where
  \<comment> \<open>\<^verbatim>\<open>str(Path(p).parent)\<close> for \<open>p\<close> in normal form: \<^verbatim>\<open>.\<close> for a bare name,
      \<^verbatim>\<open>/\<close> for a child of the root\<close>
  "path_parent p =
     (let d = rev (dropWhile (\<lambda>c. c \<noteq> CHR ''/'') (rev p))
      in if d = [] then ''.''
         else if butlast d = [] then ''/''
         else butlast d)"

definition inside :: "string \<Rightarrow> string \<Rightarrow> bool" where
  \<comment> \<open>\<open>p\<close> is the directory \<open>d\<close> or lies below it\<close>
  "inside d p = (p = d \<or> prefix (d @ ''/'') p)"

definition tmp_name :: "nat \<Rightarrow> string" where
  \<comment> \<open>the directory name the \<open>n\<close>-th call of \<^verbatim>\<open>tempfile.mkdtemp\<close> picks: all distinct\<close>
  "tmp_name n = ''/tmp/tmp'' @ replicate n CHR ''x''"

record world =
  next_tmp :: nat                \<comment> \<open>how many temporary directories have been created\<close>
  entries :: "string list"       \<comment> \<open>the paths (files and directories) that exist on disk\<close>
  calls :: "string list list"    \<comment> \<open>the argv of every subprocess started, oldest first\<close>

record env =
  run_proc :: "string list \<Rightarrow> string list \<Rightarrow> proc_failure + string"
    \<comment> \<open>a subprocess, by argv and the paths on disk: \<open>Inr\<close> its output when it exits 0\<close>
  which :: "string \<Rightarrow> string option"                  \<comment> \<open>\<^verbatim>\<open>shutil.which\<close>\<close>
  zip_tree :: "string \<Rightarrow> error + string list"
    \<comment> \<open>\<^verbatim>\<open>ZipFile(p).extractall(d)\<close>: the relative paths (directories and files) it creates
        below \<open>d\<close>, or the error it raises\<close>
  manifest_text :: "string \<Rightarrow> string option"
    \<comment> \<open>the text of \<^verbatim>\<open>META-INF/MANIFEST.MF\<close> that \<^verbatim>\<open>jar xf\<close> extracts from an archive, if any\<close>
  jlink_tree :: "string list"
    \<comment> \<open>the relative paths \<^verbatim>\<open>jlink\<close> leaves below its output directory\<close>
  scan_error :: "string \<Rightarrow> error option"
    \<comment> \<open>the error, if any, of listing a source directory (\<^verbatim>\<open>os.scandir\<close>)\<close>
  copy_error :: "string \<Rightarrow> string \<Rightarrow> error option"
    \<comment> \<open>the error, if any, of copying a source to a destination\<close>
  write_error :: "string \<Rightarrow> error option"
  pyinstaller_importable :: bool
  pyinstaller_run :: "string list \<Rightarrow> error option"
  os_name :: string                                     \<comment> \<open>\<^verbatim>\<open>os.name\<close>\<close>
  sys_executable :: string                              \<comment> \<open>\<^verbatim>\<open>sys.executable\<close>\<close>

definition exists :: "world \<Rightarrow> string \<Rightarrow> bool" where
  "exists w p = (p \<in> set (entries w))"

definition create :: "string list \<Rightarrow> world \<Rightarrow> world" where
  "create ps w = w\<lparr>entries := ps @ entries w\<rparr>"

definition rmtree :: "string \<Rightarrow> world \<Rightarrow> world" where
  \<comment> \<open>\<^verbatim>\<open>shutil.rmtree(d)\<close>: \<open>d\<close> and everything below it\<close>
  "rmtree d w = w\<lparr>entries := filter (\<lambda>p. \<not> inside d p) (entries w)\<rparr>"

definition mkdtemp :: "world \<Rightarrow> string \<times> world" where
  "mkdtemp w =
     (let d = tmp_name (next_tmp w)
      in (d, w\<lparr>next_tmp := Suc (next_tmp w), entries := d # entries w\<rparr>))"

definition with_tmpdir :: "(string \<Rightarrow> world \<Rightarrow> 'a \<times> world) \<Rightarrow> world \<Rightarrow> 'a \<times> world" where
  \<comment> \<open>\<^verbatim>\<open>with tempfile.TemporaryDirectory() as d: body\<close>. The body's outcome \<open>'a\<close> holds its
      exception, if any: the directory is removed on every way out of the block.\<close>
  "with_tmpdir body w =
     (case mkdtemp w of (d, w1) \<Rightarrow>
        (case body d w1 of (r, w2) \<Rightarrow> (r, rmtree d w2)))"

definition check_output :: "env \<Rightarrow> string list \<Rightarrow> world \<Rightarrow> (error + string) \<times> world" where
  \<comment> \<open>\<^verbatim>\<open>subprocess.check_output(argv)\<close> (and \<^verbatim>\<open>check_call\<close>, \<^verbatim>\<open>run\<close>): logs the call\<close>
  "check_output e argv w =
     ((case run_proc e argv (entries w) of
         Inl NonZeroExit \<Rightarrow> Inl CalledProcessError
       | Inl CannotStart \<Rightarrow> Inl OSError
       | Inr out \<Rightarrow> Inr out),
      w\<lparr>calls := calls w @ [argv]\<rparr>)"

section \<open>JDKManager\<close>

record jdk_manager =
  jdk_dir :: string

definition VERSION_1 :: string where
  \<comment> \<open>the bytes \<^verbatim>\<open>version "1.\<close> (\<open>CHR 0x22\<close> is the double quote)\<close>
  "VERSION_1 = ''version '' @ [CHR 0x22] @ ''1.''"

definition detect_jdk :: "env \<Rightarrow> world \<Rightarrow> string \<times> world" where
  \<comment> \<open>every exception of the \<^verbatim>\<open>try\<close> block, the version error included, is caught and
      answered with the empty string\<close>
  "detect_jdk e w =
     (case check_output e [''java'', ''-version''] w of
        (Inl err, w1) \<Rightarrow> ([], w1)
      | (Inr out, w1) \<Rightarrow>
          if str_in VERSION_1 out then ([], w1)
          else (case which e ''java'' of
                  None \<Rightarrow> ([], w1)
                | Some java_path \<Rightarrow>
                    if java_path = [] then ([], w1)
                    else (path_parent (path_parent java_path), w1)))"

definition JDKManager_init :: "env \<Rightarrow> string option \<Rightarrow> world \<Rightarrow> (error + jdk_manager) \<times> world" where
  \<comment> \<open>\<^verbatim>\<open>self.jdk_dir = custom_path or self._detect_jdk()\<close>: detection runs only when
      \<^verbatim>\<open>custom_path\<close> is \<^verbatim>\<open>None\<close> or empty\<close>
  "JDKManager_init e custom_path w =
     (case (case custom_path of
              None \<Rightarrow> detect_jdk e w
            | Some p \<Rightarrow> if p \<noteq> [] then (p, w) else detect_jdk e w) of
        (dir, w1) \<Rightarrow>
          if dir = [] then (Inl JDKNotFound, w1) else (Inr \<lparr>jdk_dir = dir\<rparr>, w1))"

definition jdk_subpath :: "jdk_manager \<Rightarrow> string \<Rightarrow> string" where
  \<comment> \<open>\<^verbatim>\<open>str(Path(self.jdk_dir) / name)\<close>: the directory is given by the caller or by the
      detection, and pathlib drops its trailing slashes\<close>
  "jdk_subpath jdk name =
     (let d = path_text (jdk_dir jdk)
      in if d = ''/'' then d @ name else path_join d name)"

definition get_bin :: "jdk_manager \<Rightarrow> string \<Rightarrow> string" where
  "get_bin jdk tool = path_join (jdk_subpath jdk ''bin'') tool"

definition list_all_modules :: "env \<Rightarrow> jdk_manager \<Rightarrow> world \<Rightarrow> (error + string) \<times> world" where
  "list_all_modules e jdk w =
     (case check_output e [get_bin jdk ''java'', ''--list-modules''] w of
        (Inl err, w1) \<Rightarrow> (Inl err, w1)
      | (Inr out, w1) \<Rightarrow> (Inr (join '','' (all_module_names out)), w1))"

section \<open>ModuleAnalyzer\<close>

definition lib_jars :: "string \<Rightarrow> world \<Rightarrow> string list" where
  \<comment> \<open>\<^verbatim>\<open>[str(f) for f in lib_dir.iterdir() if f.suffix == ".jar"]\<close>: the direct children.
      \<^verbatim>\<open>iterdir\<close> yields them in an order of the file system's choosing; here it is the
      order of \<open>entries\<close>, and nothing proved below depends on it.\<close>
  "lib_jars lib_dir w =
     filter (\<lambda>p. prefix (lib_dir @ ''/'') p
                 \<and> CHR ''/'' \<notin> set (drop (Suc (length lib_dir)) p)
                 \<and> drop (Suc (length lib_dir)) p \<noteq> []
                 \<and> path_suffix p = ''.jar'')
            (remdups (entries w))"

definition extract_war :: "env \<Rightarrow> string \<Rightarrow> world \<Rightarrow> (error + string list) \<times> world" where
  "extract_war e war_path =
     with_tmpdir (\<lambda>tmp_dir w.
       (case zip_tree e war_path of
          Inl err \<Rightarrow> (Inl err, w)
        | Inr tree \<Rightarrow>
            (let w1 = create (map (path_join tmp_dir) tree) w;
                 classes_dir = path_join (path_join tmp_dir ''WEB-INF'') ''classes'';
                 lib_dir = path_join (path_join tmp_dir ''WEB-INF'') ''lib''
             in (Inr ((if exists w1 classes_dir then [classes_dir] else [])
                      @ (if exists w1 lib_dir then lib_jars lib_dir w1 else [])),
                 w1))))"

definition is_war :: "string \<Rightarrow> bool" where
  "is_war jar_path = endswith (lower jar_path) ''.war''"

definition prepare_targets :: "env \<Rightarrow> string \<Rightarrow> world \<Rightarrow> (error + string list) \<times> world" where
  "prepare_targets e jar_path w =
     (if is_war jar_path then extract_war e jar_path w else (Inr [jar_path], w))"

definition run_jdeps :: "env \<Rightarrow> jdk_manager \<Rightarrow> string list \<Rightarrow> world \<Rightarrow> (error + string) \<times> world" where
  \<comment> \<open>An exception raised inside the \<^verbatim>\<open>except CalledProcessError\<close> handler is not
      caught by the \<^verbatim>\<open>except Exception\<close> clause of the same \<^verbatim>\<open>try\<close>: it leaves the function.\<close>
  "run_jdeps e jdk targets w =
     (case check_output e ([get_bin jdk ''jdeps'', ''--print-module-deps''] @ targets) w of
        (Inr out, w1) \<Rightarrow> (Inr (strip out), w1)
      | (Inl CalledProcessError, w1) \<Rightarrow>
          (case check_output e ([get_bin jdk ''jdeps'', ''--list-deps''] @ targets) w1 of
             (Inr out, w2) \<Rightarrow> (Inr (parse_list_deps out), w2)
           | (Inl err, w2) \<Rightarrow> (Inl err, w2))
      | (Inl err, w1) \<Rightarrow> (Inr DEFAULT_MODULES, w1))"

definition analyze :: "env \<Rightarrow> jdk_manager \<Rightarrow> string \<Rightarrow> bool \<Rightarrow> world \<Rightarrow> (error + string) \<times> world" where
  "analyze e jdk jar_path use_all w =
     (if use_all then list_all_modules e jdk w
      else (case prepare_targets e jar_path w of
              (Inl err, w1) \<Rightarrow> (Inl err, w1)
            | (Inr targets, w1) \<Rightarrow> run_jdeps e jdk targets w1))"

section \<open>Sequencing: an exception ends the rest of a block\<close>

definition bindE ::
  "(world \<Rightarrow> (error + 'a) \<times> world) \<Rightarrow> ('a \<Rightarrow> world \<Rightarrow> (error + 'b) \<times> world)
     \<Rightarrow> world \<Rightarrow> (error + 'b) \<times> world" where
  "bindE m f w = (case m w of (Inl err, w1) \<Rightarrow> (Inl err, w1) | (Inr x, w1) \<Rightarrow> f x w1)"

section \<open>JREBuilder and PackageBuilder\<close>

definition jre_build :: "env \<Rightarrow> jdk_manager \<Rightarrow> string \<Rightarrow> string \<Rightarrow> world \<Rightarrow> (error + unit) \<times> world" where
  \<comment> \<open>\<^verbatim>\<open>JREBuilder.build\<close>: \<^verbatim>\<open>jlink\<close> writes below its output directory only\<close>
  "jre_build e jdk output_dir modules w =
     (case check_output e
             [get_bin jdk ''jlink'', ''--module-path'', jdk_subpath jdk ''jmods'',
              ''--add-modules'', modules, ''--output'', output_dir,
              ''--no-header-files'', ''--no-man-pages''] w of
        (Inl err, w1) \<Rightarrow> (Inl err, w1)
      | (Inr out, w1) \<Rightarrow> (Inr (), create (output_dir # map (path_join output_dir) (jlink_tree e)) w1))"

definition mkdir_exist_ok :: "string \<Rightarrow> world \<Rightarrow> world" where
  "mkdir_exist_ok d w = (if exists w d then w else create [d] w)"

definition copy2 :: "env \<Rightarrow> string \<Rightarrow> string \<Rightarrow> world \<Rightarrow> (error + unit) \<times> world" where
  "copy2 e src dst w =
     (case copy_error e src dst of
        Some err \<Rightarrow> (Inl err, w)
      | None \<Rightarrow> (Inr (), create [dst] w))"

definition copytree :: "env \<Rightarrow> string \<Rightarrow> string \<Rightarrow> world \<Rightarrow> (error + unit) \<times> world" where
  \<comment> \<open>\<^verbatim>\<open>shutil.copytree(src, dst)\<close>: lists the source first, then refuses an existing
      destination\<close>
  "copytree e src dst w =
     (case scan_error e src of
        Some err \<Rightarrow> (Inl err, w)
      | None \<Rightarrow>
          if exists w dst then (Inl FileExistsError, w)
          else (case copy_error e src dst of
                  Some err \<Rightarrow> (Inl err, w)
                | None \<Rightarrow>
                    (Inr (),
                     create (dst # map (\<lambda>p. dst @ drop (length src) p)
                                       (filter (\<lambda>p. prefix (src @ ''/'') p) (entries w))) w)))"

definition prepare :: "env \<Rightarrow> string \<Rightarrow> string \<Rightarrow> string \<Rightarrow> world \<Rightarrow> (error + string) \<times> world" where
  \<comment> \<open>\<^verbatim>\<open>PackageBuilder.prepare\<close>. A \<^verbatim>\<open>PermissionError\<close> of the first copy becomes the
      \<^verbatim>\<open>RuntimeError\<close>; one raised by the retry inside the \<^verbatim>\<open>FileExistsError\<close> handler does not.\<close>
  "prepare e work_dir jar_path jre_dir w =
     (let src_dir = path_join work_dir ''src'';
          w1 = mkdir_exist_ok src_dir w;
          jre_dest = path_join src_dir (path_name jre_dir);
          launcher_path = path_join src_dir ''launcher.py''
      in bindE (copy2 e jar_path (path_join src_dir (path_name jar_path)))
           (\<lambda>_. bindE (\<lambda>w2. case copytree e jre_dir jre_dest w2 of
                               (Inl FileExistsError, w3) \<Rightarrow> copytree e jre_dir jre_dest (rmtree jre_dest w3)
                             | (Inl PermissionError, w3) \<Rightarrow> (Inl PermissionDenied, w3)
                             | other \<Rightarrow> other)
           (\<lambda>_ w4. case write_error e launcher_path of
                      Some err \<Rightarrow> (Inl err, w4)
                    | None \<Rightarrow> (Inr launcher_path, create [launcher_path] w4))) w1)"

definition os_pathsep :: "env \<Rightarrow> string" where
  "os_pathsep e = (if os_name e = ''nt'' then '';'' else '':'')"

definition bundler_scratch :: "string \<Rightarrow> string list" where
  \<comment> \<open>the build directory and the spec file the bundler writes in the current directory on
      every run\<close>
  "bundler_scratch output = [''build'', output @ ''.spec'']"

definition bundler_outputs :: "string \<Rightarrow> string list" where
  \<comment> \<open>what a successful bundler run leaves, relative to the current directory\<close>
  "bundler_outputs output = bundler_scratch output @ [''dist'', ''dist/'' @ output]"

definition build_exe ::
  "env \<Rightarrow> string \<Rightarrow> string \<Rightarrow> string \<Rightarrow> string \<Rightarrow> world \<Rightarrow> (error + unit) \<times> world" where
  \<comment> \<open>\<^verbatim>\<open>PackageBuilder.build_exe\<close>. After a failed import the name \<^verbatim>\<open>PyInstaller\<close> is still
      unbound when \<^verbatim>\<open>pip install\<close> has succeeded.\<close>
  "build_exe e launcher output jre_name jar_name =
     bindE (\<lambda>w. if pyinstaller_importable e then (Inr True, w)
                 else (case check_output e [sys_executable e, ''-m'', ''pip'', ''install'', ''pyinstaller''] w of
                         (Inl err, w1) \<Rightarrow> (Inl err, w1)
                       | (Inr out, w1) \<Rightarrow> (Inr False, w1)))
       (\<lambda>bound w.
          if \<not> bound then (Inl UnboundLocalError, w)
          else (case pyinstaller_run e
                       [''--onefile'', ''--name'', output, launcher,
                        ''--add-data'', path_join (path_parent launcher) jre_name @ os_pathsep e @ jre_name,
                        ''--add-data'', path_join (path_parent launcher) jar_name @ os_pathsep e @ ''.'',
                        ''--clean''] of
                  Some err \<Rightarrow> (Inl err, create (bundler_scratch output) w)
                | None \<Rightarrow> (Inr (), create (bundler_outputs output) w)))"

section \<open>JavaPackager\<close>

record args =
  jar_file :: string                     \<comment> \<open>here already resolved to an absolute path\<close>
  jdk_path :: "string option"
  extra_modules :: "string list option"
  all_modules :: bool

definition has_main_class :: "env \<Rightarrow> jdk_manager \<Rightarrow> string \<Rightarrow> world \<Rightarrow> (error + bool) \<times> world" where
  \<comment> \<open>\<^verbatim>\<open>subprocess.run\<close> without \<^verbatim>\<open>check\<close>: the exit status is ignored, a tool that cannot
      start raises. Then \<^verbatim>\<open>mf_path.exists() and "Main-Class" in mf_path.read_text()\<close>.\<close>
  "has_main_class e jdk jar_path =
     with_tmpdir (\<lambda>tmp_dir w.
       (case check_output e [get_bin jdk ''jar'', ''xf'', jar_path, ''META-INF/MANIFEST.MF''] w of
          (out, w1) \<Rightarrow>
            if out = Inl OSError then (Inl OSError, w1)
            else (let mf_path = path_join (path_join tmp_dir ''META-INF'') ''MANIFEST.MF''
                  in case manifest_text e jar_path of
                       None \<Rightarrow> (Inr False, w1)
                     | Some text \<Rightarrow>
                         (Inr (str_in ''Main-Class'' text),
                          create [path_join tmp_dir ''META-INF'', mf_path] w1))))"

definition validate :: "env \<Rightarrow> jdk_manager \<Rightarrow> string \<Rightarrow> world \<Rightarrow> (error + unit) \<times> world" where
  "validate e jdk jar_path w =
     (if \<not> exists w jar_path then (Inl InputNotFound, w)
      else if lower (path_suffix jar_path) \<notin> set [''.jar'', ''.war''] then (Inl UnsupportedInputType, w)
      else if lower (path_suffix jar_path) = ''.jar''
      then (case has_main_class e jdk jar_path w of
              (Inl err, w1) \<Rightarrow> (Inl err, w1)
            | (Inr ok, w1) \<Rightarrow> if ok then (Inr (), w1) else (Inl MissingEntryPoint, w1))
      else (Inr (), w))"

definition output_name :: "env \<Rightarrow> string \<Rightarrow> string" where
  "output_name e jar_path = path_stem jar_path @ (if os_name e = ''nt'' then ''.exe'' else [])"

definition resolve :: "env \<Rightarrow> jdk_manager \<Rightarrow> args \<Rightarrow> world \<Rightarrow> (error + string) \<times> world" where
  \<comment> \<open>the resolution step of \<^verbatim>\<open>package\<close>:
      \<^verbatim>\<open>merge_modules(analyze(jar_path, args.all_modules), args.extra_modules or [])\<close>\<close>
  "resolve e jdk a =
     bindE (analyze e jdk (jar_file a) (all_modules a))
       (\<lambda>analyzed_modules w.
          (Inr (merge_modules analyzed_modules
                  (case extra_modules a of None \<Rightarrow> [] | Some xs \<Rightarrow> xs)), w))"

definition package_body ::
  "env \<Rightarrow> jdk_manager \<Rightarrow> args \<Rightarrow> string \<Rightarrow> world \<Rightarrow> (error + unit) \<times> world" where
  \<comment> \<open>the \<^verbatim>\<open>try\<close> block of \<^verbatim>\<open>package\<close>; its handler logs and re-raises\<close>
  "package_body e jdk a work_dir =
     bindE (validate e jdk (jar_file a))
       (\<lambda>_. bindE (resolve e jdk a)
       (\<lambda>final_modules.
          let jre_dir = path_join work_dir ''jre''
          in bindE (jre_build e jdk jre_dir final_modules)
       (\<lambda>_ w. bindE (prepare e work_dir (jar_file a) jre_dir)
       (\<lambda>launcher_script.
          build_exe e launcher_script (output_name e (jar_file a))
                    (path_name jre_dir) (path_name (jar_file a)))
          (mkdir_exist_ok work_dir w))))"

definition package :: "env \<Rightarrow> jdk_manager \<Rightarrow> args \<Rightarrow> world \<Rightarrow> (error + unit) \<times> world" where
  "package e jdk a = with_tmpdir (package_body e jdk a)"

section \<open>The entry-point attribute as the specification words it\<close>

definition spec_declares_key :: "string \<Rightarrow> string \<Rightarrow> bool" where
  \<comment> \<open>the specification's "exact key match": some line of the manifest is an attribute
      whose name is \<open>key\<close>, that is, the line starts with the key and a colon\<close>
  "spec_declares_key key text = list_ex (\<lambda>line. prefix (key @ '':'') line) (splitlines text)"

section \<open>Sample runs\<close>

definition proc_by_flag ::
  "(proc_failure + string) \<Rightarrow> (proc_failure + string) \<Rightarrow> string list \<Rightarrow> proc_failure + string" where
  \<comment> \<open>a toolchain whose inspector answers \<open>precise\<close> in precise mode and \<open>listing\<close> in
      listing mode; every other tool prints nothing and exits 0\<close>
  "proc_by_flag precise listing argv =
     (if ''--print-module-deps'' \<in> set argv then precise
      else if ''--list-deps'' \<in> set argv then listing
      else Inr [])"

definition sample_env :: "(string list \<Rightarrow> proc_failure + string) \<Rightarrow> string option \<Rightarrow> env" where
  \<comment> \<open>a host whose subprocesses behave as \<open>proc\<close>, whose archives carry the manifest text
      \<open>manifest\<close>, and whose web archives hold a classes directory and two library jars\<close>
  "sample_env proc manifest =
     \<lparr> run_proc = (\<lambda>argv es. proc argv),
       which = (\<lambda>tool. Some ''/usr/lib/jvm/bin/java''),
       zip_tree = (\<lambda>p. Inr [''WEB-INF'', ''WEB-INF/classes'', ''WEB-INF/classes/A.class'',
                             ''WEB-INF/lib'', ''WEB-INF/lib/a.jar'', ''WEB-INF/lib/b.jar'',
                             ''WEB-INF/lib/notes.txt'']),
       manifest_text = (\<lambda>p. manifest),
       jlink_tree = [''bin'', ''bin/java''],
       scan_error = (\<lambda>src. None),
       copy_error = (\<lambda>src dst. None),
       write_error = (\<lambda>p. None),
       pyinstaller_importable = True,
       pyinstaller_run = (\<lambda>argv. None),
       os_name = ''posix'',
       sys_executable = ''python3'' \<rparr>"

definition sample_world :: world where
  "sample_world = \<lparr> next_tmp = 0, entries = [''/home/u/app.jar'', ''/home/u/site.war''], calls = [] \<rparr>"

definition sample_jdk :: jdk_manager where
  "sample_jdk = \<lparr> jdk_dir = ''/usr/lib/jvm'' \<rparr>"

definition modules_listing :: string where
  \<comment> \<open>an output of \<^verbatim>\<open>java --list-modules\<close>, one entry repeated\<close>
  "modules_listing =
     ''java.base@17.0.1'' @ [CHR 0x0A] @ ''java.sql@17.0.1'' @ [CHR 0x0A] @ ''java.base@17.0.1'' @ [CHR 0x0A]"

definition lists_modules :: "string list \<Rightarrow> proc_failure + string" where
  "lists_modules argv = Inr modules_listing"

definition old_version_text :: string where
  \<comment> \<open>what a Java 8 prints for \<^verbatim>\<open>java -version\<close>\<close>
  "old_version_text = ''java version '' @ [CHR 0x22] @ ''1.8.0_292'' @ [CHR 0x22]"

definition old_java :: "string list \<Rightarrow> proc_failure + string" where
  "old_java argv = Inr old_version_text"

definition good_manifest :: string where
  "good_manifest = ''Manifest-Version: 1.0'' @ [CHR 0x0A] @ ''Main-Class: com.App'' @ [CHR 0x0A]"

definition odd_manifest :: string where
  \<comment> \<open>a manifest without the \<^verbatim>\<open>Main-Class\<close> attribute whose text contains these characters\<close>
  "odd_manifest = ''Manifest-Version: 1.0'' @ [CHR 0x0A] @ ''Original-Main-Class: com.App'' @ [CHR 0x0A]"


definition sample_args :: args where
  "sample_args = \<lparr> jar_file = ''/home/u/app.jar'', jdk_path = None,
                    extra_modules = Some [''java.sql''], all_modules = False \<rparr>"

definition all_modules_only_args :: args where
  \<comment> \<open>\<^verbatim>\<open>--all-modules\<close> and no extra modules\<close>
  "all_modules_only_args = \<lparr> jar_file = ''/home/u/app.jar'', jdk_path = None,
                              extra_modules = None, all_modules = True \<rparr>"

definition all_modules_args :: args where
  \<comment> \<open>\<^verbatim>\<open>--all-modules --extra-modules com.acme.extra\<close>\<close>
  "all_modules_args = \<lparr> jar_file = ''/home/u/app.jar'', jdk_path = None,
                         extra_modules = Some [''com.acme.extra''], all_modules = True \<rparr>"

section \<open>The disk footprint of a computation\<close>

definition adds_only :: "string set \<Rightarrow> (world \<Rightarrow> 'a \<times> world) \<Rightarrow> bool" where
  \<comment> \<open>whatever the outcome, the paths on disk afterwards are old ones or members of \<open>A\<close>\<close>
  "adds_only A m = (\<forall>w. set (entries (snd (m w))) \<subseteq> set (entries w) \<union> A)"

section \<open>Facts about the string primitives\<close>

lemma split_chr_nonempty: "split_chr c s \<noteq> []"
  by (induction s) (auto split: list.splits)

lemma split_chr_append: "split_chr c (xs @ c # ys) = split_chr c xs @ split_chr c ys"
  by (induction xs) (auto split: list.splits simp: split_chr_nonempty)

lemma split_chr_plain: "c \<notin> set s \<Longrightarrow> split_chr c s = [s]"
  by (induction s) auto

lemma split_chr_no_sep: "p \<in> set (split_chr c s) \<Longrightarrow> c \<notin> set p"
  by (induction s arbitrary: p) (auto split: list.splits if_splits)

lemma split_chr_join:
  "xs \<noteq> [] \<Longrightarrow> \<forall>x\<in>set xs. c \<notin> set x \<Longrightarrow> split_chr c (join [c] xs) = xs"
proof (induction "[c]" xs rule: join.induct)
  case 1
  then show ?case by simp
next
  case (2 x)
  then show ?case by (simp add: split_chr_plain)
next
  case (3 x y ys)
  then show ?case by (simp add: split_chr_append split_chr_plain)
qed

lemma set_split_join:
  "xs \<noteq> [] \<Longrightarrow> set (split_chr c (join [c] xs)) = (\<Union>x\<in>set xs. set (split_chr c x))"
proof (induction "[c]" xs rule: join.induct)
  case 1
  then show ?case by simp
next
  case (2 x)
  then show ?case by simp
next
  case (3 x y ys)
  then show ?case by (simp add: split_chr_append)
qed

lemma sample_get_bin: "get_bin sample_jdk tool = ''/usr/lib/jvm/bin/'' @ tool"
  by (simp add: get_bin_def jdk_subpath_def path_text_def path_join_def sample_jdk_def)

section \<open>The fallback chain of the analysis\<close>

text \<open>
  C1. The claim: with \<open>use_all\<close> unset the analysis never fails; a precise-mode failure
  leads to listing mode, and a listing-mode failure or an unusable inspector leads to the
  three-module default. In \<^verbatim>\<open>_run_jdeps\<close> the listing-mode call sits inside the
  \<^verbatim>\<open>except CalledProcessError\<close> handler, so its own failure is not caught: when the
  inspector exits non-zero in both modes, the analysis of a plain archive raises
  \<^verbatim>\<open>CalledProcessError\<close> instead of returning the default.
\<close>

theorem analyze_listing_failure_raises:
  "fst (analyze (sample_env (proc_by_flag (Inl NonZeroExit) (Inl NonZeroExit)) None)
          sample_jdk ''/home/u/app.jar'' False sample_world) = Inl CalledProcessError"
  by (simp add: analyze_def prepare_targets_def is_war_def endswith_def lower_def lower_chr_def
      run_jdeps_def check_output_def sample_env_def proc_by_flag_def suffix_to_prefix)

section \<open>The base module in the result of the analysis\<close>

lemma set_strip: "set (strip s) \<subseteq> set s"
proof -
  have "set (strip s) = set (dropWhile isspace (rev (dropWhile isspace s)))"
    by (simp add: strip_def)
  also have "\<dots> \<subseteq> set (rev (dropWhile isspace s))"
    by (meson set_dropWhileD subsetI)
  also have "\<dots> \<subseteq> set s"
    using set_dropWhileD by fastforce
  finally show ?thesis .
qed

lemma py_sorted_set_props:
  "sorted (py_sorted_set xs)" "distinct (py_sorted_set xs)" "set (py_sorted_set xs) = set xs"
  by (simp_all add: py_sorted_set_def)

lemma base_in_list_deps: "''java.base'' \<in> set (list_deps_modules out)"
  by (simp add: list_deps_modules_def py_sorted_set_props)

lemma list_deps_nonempty: "list_deps_modules out \<noteq> []"
  using base_in_list_deps[of out] by auto

lemma base_in_parse_list_deps: "''java.base'' \<in> set (split_chr CHR '','' (parse_list_deps out))"
proof -
  have "set (split_chr CHR '','' (join '','' (list_deps_modules out)))
          = (\<Union>x\<in>set (list_deps_modules out). set (split_chr CHR '','' x))"
    by (rule set_split_join) (rule list_deps_nonempty)
  moreover have "''java.base'' \<in> set (split_chr CHR '','' ''java.base'')"
    by simp
  ultimately show ?thesis
    unfolding parse_list_deps_def using base_in_list_deps[of out] by blast
qed

lemma join_eq_Nil: "join sep xs = [] \<Longrightarrow> sep \<noteq> [] \<Longrightarrow> xs = [] \<or> xs = [[]]"
  by (induction sep xs rule: join.induct) auto

lemma parse_list_deps_nonempty: "parse_list_deps out \<noteq> []"
proof
  assume "parse_list_deps out = []"
  then have "list_deps_modules out = [] \<or> list_deps_modules out = [[]]"
    unfolding parse_list_deps_def by (intro join_eq_Nil) auto
  then show False
    using base_in_list_deps[of out] by auto
qed

lemma default_has_base:
  "DEFAULT_MODULES \<noteq> [] \<and> ''java.base'' \<in> set (split_chr CHR '','' DEFAULT_MODULES)"
  by (simp add: DEFAULT_MODULES_def)

lemma run_jdeps_cases:
  "fst (run_jdeps e jdk ts w) =
     (case run_proc e ([get_bin jdk ''jdeps'', ''--print-module-deps''] @ ts) (entries w) of
        Inr out \<Rightarrow> Inr (strip out)
      | Inl NonZeroExit \<Rightarrow>
          (case run_proc e ([get_bin jdk ''jdeps'', ''--list-deps''] @ ts) (entries w) of
             Inr out \<Rightarrow> Inr (parse_list_deps out)
           | Inl NonZeroExit \<Rightarrow> Inl CalledProcessError
           | Inl CannotStart \<Rightarrow> Inl OSError)
      | Inl CannotStart \<Rightarrow> Inr DEFAULT_MODULES)"
  by (simp add: run_jdeps_def check_output_def split: sum.splits proc_failure.splits)

text \<open>
  C3, as the code has it. When the precise mode fails, whichever of the listing mode and
  the default answers, the module string returned is non-empty and names \<open>java.base\<close>.
  When the precise mode succeeds the result is the inspector's output with the
  surrounding whitespace removed, whatever it names.
\<close>

theorem analyze_base_module:
  assumes "prepare_targets e p w = (Inr ts, w1)"
      and "fst (analyze e jdk p False w) = Inr r"
  shows "(case run_proc e ([get_bin jdk ''jdeps'', ''--print-module-deps''] @ ts) (entries w1) of
            Inr out \<Rightarrow> r = strip out
          | Inl err \<Rightarrow> r \<noteq> [] \<and> ''java.base'' \<in> set (split_chr CHR '','' r))"
proof -
  have "fst (run_jdeps e jdk ts w1) = Inr r"
    using assms by (simp add: analyze_def)
  then show ?thesis
    unfolding run_jdeps_cases
    using base_in_parse_list_deps parse_list_deps_nonempty default_has_base
    by (auto split: sum.splits proc_failure.splits)
qed

theorem analyze_base_module_witness:
  "fst (analyze (sample_env (proc_by_flag (Inl NonZeroExit) (Inr ''   app -> java.sql [java.sql]'')) None)
          sample_jdk ''/home/u/app.jar'' False sample_world) = Inr ''java.base,java.sql''
   \<and> ''java.base'' \<in> set (split_chr CHR '','' ''java.base,java.sql'')"
  using analyze_base_module [of "sample_env (proc_by_flag (Inl NonZeroExit) (Inr ''   app -> java.sql [java.sql]'')) None"
      "''/home/u/app.jar''" sample_world "[''/home/u/app.jar'']" sample_world sample_jdk "''java.base,java.sql''"]
  by (simp add: analyze_def prepare_targets_def is_war_def endswith_def lower_def lower_chr_def
      run_jdeps_def check_output_def sample_env_def proc_by_flag_def suffix_to_prefix
      parse_list_deps_def list_deps_modules_def py_sorted_set_def splitlines_def is_linebreak_def
      bracketed_def List.map_filter_simps slice_def index_chr_def sample_get_bin)

text \<open>
  C3 as stated fails in precise mode: an inspector that exits 0 and prints nothing gives
  the empty module string, which does not name \<open>java.base\<close>.
\<close>

theorem analyze_precise_empty_counterexample:
  "fst (analyze (sample_env (proc_by_flag (Inr []) (Inr [])) None)
          sample_jdk ''/home/u/app.jar'' False sample_world) = Inr []
   \<and> ''java.base'' \<notin> set (split_chr CHR '','' [])"
  by (simp add: analyze_def prepare_targets_def is_war_def endswith_def lower_def lower_chr_def
      run_jdeps_def check_output_def sample_env_def proc_by_flag_def suffix_to_prefix strip_def)

section \<open>The order of the serialised module sets\<close>

lemma list_deps_no_comma:
  assumes "\<forall>l\<in>set (splitlines out). \<forall>m. bracketed l = Some m \<longrightarrow> CHR '','' \<notin> set m"
  shows "\<forall>x\<in>set (list_deps_modules out). CHR '','' \<notin> set x"
  using assms by (auto simp: list_deps_modules_def py_sorted_set_props List.map_filter_def)

lemma merged_names_sorted: "sorted (merged_names analyzed extra)"
  by (simp add: merged_names_def)

lemma merged_names_no_comma:
  assumes "\<forall>x\<in>set extra. CHR '','' \<notin> set x"
  shows "\<forall>x\<in>set (merged_names analyzed extra). CHR '','' \<notin> set x"
proof
  fix x assume "x \<in> set (merged_names analyzed extra)"
  then obtain m where m: "m \<in> set (split_chr CHR '','' analyzed) \<union> set extra" "x = strip m"
    by (auto simp: merged_names_def)
  then have "CHR '','' \<notin> set m"
    using assms split_chr_no_sep by auto
  then show "CHR '','' \<notin> set x"
    using m(2) set_strip by blast
qed

lemma sorted_split_merge:
  assumes "\<forall>x\<in>set extra. CHR '','' \<notin> set x"
  shows "sorted (split_chr CHR '','' (merge_modules analyzed extra))"
proof (cases "merged_names analyzed extra = []")
  case True
  then show ?thesis by (simp add: merge_modules_def)
next
  case False
  then have "split_chr CHR '','' (merge_modules analyzed extra) = merged_names analyzed extra"
    unfolding merge_modules_def using merged_names_no_comma[OF assms] by (simp add: split_chr_join)
  then show ?thesis by (simp add: merged_names_sorted)
qed

text \<open>
  C4, as the code has it. For module names without a comma: the listing-mode result,
  split at its commas, is in ascending order without duplicates; the output of
  \<^verbatim>\<open>merge_modules\<close>, split at its commas, is in ascending order; the default is the
  fixed text naming \<open>java.instrument\<close>, \<open>java.base\<close>, \<open>java.logging\<close> in this order;
  and the precise-mode result is the inspector's output with the surrounding whitespace
  removed, in the order the inspector printed it.
\<close>

theorem module_strings_order:
  assumes "\<forall>l\<in>set (splitlines out). \<forall>m. bracketed l = Some m \<longrightarrow> CHR '','' \<notin> set m"
      and "\<forall>x\<in>set extra. CHR '','' \<notin> set x"
  shows "sorted (split_chr CHR '','' (parse_list_deps out))
       \<and> distinct (split_chr CHR '','' (parse_list_deps out))
       \<and> sorted (split_chr CHR '','' (merge_modules analyzed extra))
       \<and> split_chr CHR '','' DEFAULT_MODULES = [''java.instrument'', ''java.base'', ''java.logging'']
       \<and> (run_proc e ([get_bin jdk ''jdeps'', ''--print-module-deps''] @ ts) (entries w) = Inr pout
            \<longrightarrow> fst (run_jdeps e jdk ts w) = Inr (strip pout))"
proof -
  have "split_chr CHR '','' (parse_list_deps out) = list_deps_modules out"
    unfolding parse_list_deps_def
    using list_deps_no_comma[OF assms(1)] list_deps_nonempty by (simp add: split_chr_join)
  then have "sorted (split_chr CHR '','' (parse_list_deps out))"
    and "distinct (split_chr CHR '','' (parse_list_deps out))"
    by (simp_all add: list_deps_modules_def py_sorted_set_props)
  moreover have "sorted (split_chr CHR '','' (merge_modules analyzed extra))"
    using assms(2) by (rule sorted_split_merge)
  moreover have "split_chr CHR '','' DEFAULT_MODULES = [''java.instrument'', ''java.base'', ''java.logging'']"
    by (simp add: DEFAULT_MODULES_def)
  moreover have "run_proc e ([get_bin jdk ''jdeps'', ''--print-module-deps''] @ ts) (entries w) = Inr pout
            \<longrightarrow> fst (run_jdeps e jdk ts w) = Inr (strip pout)"
    by (simp add: run_jdeps_cases)
  ultimately show ?thesis by blast
qed

theorem module_strings_order_witness:
  "sorted (split_chr CHR '','' (parse_list_deps ''app -> java.sql [java.sql]''))
   \<and> split_chr CHR '','' (merge_modules ''java.sql,java.base'' [''java.xml'', '' '']) = [''java.base'', ''java.sql'', ''java.xml'']
   \<and> sorted (split_chr CHR '','' (merge_modules ''java.sql,java.base'' [''java.xml'', '' '']))
   \<and> fst (run_jdeps (sample_env (proc_by_flag (Inr ''java.sql,java.base '') (Inr [])) None) sample_jdk [''/home/u/app.jar''] sample_world) = Inr ''java.sql,java.base''"
  using module_strings_order [of "''app -> java.sql [java.sql]''" "[''java.xml'', '' '']"
      "''java.sql,java.base''" "sample_env (proc_by_flag (Inr ''java.sql,java.base '') (Inr [])) None"
      sample_jdk "[''/home/u/app.jar'']" sample_world "''java.sql,java.base ''"]
  by (simp add: splitlines_def is_linebreak_def bracketed_def slice_def index_chr_def
      sample_env_def proc_by_flag_def strip_def isspace_def merge_modules_def merged_names_def)

text \<open>
  C4 as stated fails for the default set: when the inspector cannot be started the
  analysis returns \<^verbatim>\<open>DEFAULT_MODULES\<close>, whose names are not in sorted order.
\<close>

theorem default_modules_unsorted_counterexample:
  "fst (analyze (sample_env (proc_by_flag (Inl CannotStart) (Inl CannotStart)) None)
          sample_jdk ''/home/u/app.jar'' False sample_world) = Inr DEFAULT_MODULES
   \<and> \<not> sorted (split_chr CHR '','' DEFAULT_MODULES)"
  by (simp add: analyze_def prepare_targets_def is_war_def endswith_def lower_def lower_chr_def
      run_jdeps_def check_output_def sample_env_def proc_by_flag_def suffix_to_prefix DEFAULT_MODULES_def)

section \<open>Merging the extra modules\<close>

lemma sort_map_filter_remdups_cong:
  assumes "set xs = set ys"
  shows "sort (map f (filter P (remdups xs))) = sort (map f (filter P (remdups ys)))"
proof -
  have "mset (remdups xs) = mset (remdups ys)"
    using assms by (simp add: set_eq_iff_mset_remdups_eq)
  then have "mset (map f (filter P (remdups xs))) = mset (map f (filter P (remdups ys)))"
    by simp
  then have "mset (sort (map f (filter P (remdups ys)))) = mset (map f (filter P (remdups xs)))"
    by simp
  then show ?thesis
    by (rule properties_for_sort) simp
qed

lemma merged_names_set_cong:
  "set extra' = set extra \<Longrightarrow> merged_names r extra' = merged_names r extra"
  unfolding merged_names_def by (rule sort_map_filter_remdups_cong) simp

lemma set_merged_names:
  "set (merged_names r extra) = strip ` {m \<in> set (split_chr CHR '','' r) \<union> set extra. strip m \<noteq> []}"
  by (auto simp: merged_names_def)

lemma map_filter_strip_plain:
  "\<forall>m\<in>set xs. strip m = m \<Longrightarrow> map strip (filter (\<lambda>m. strip m \<noteq> []) xs) = filter (\<lambda>m. m \<noteq> []) xs"
  by (induction xs) auto

lemma merged_names_plain:
  assumes "\<forall>m\<in>set (split_chr CHR '','' r) \<union> set extra. strip m = m"
  shows "merged_names r extra = sort (filter (\<lambda>m. m \<noteq> []) (remdups (split_chr CHR '','' r @ extra)))"
proof -
  have "\<forall>m\<in>set (remdups (split_chr CHR '','' r @ extra)). strip m = m"
    using assms by simp
  then show ?thesis
    unfolding merged_names_def by (simp only: map_filter_strip_plain)
qed

lemma merge_modules_twice:
  assumes plain: "\<forall>m\<in>set (split_chr CHR '','' r) \<union> set extra. strip m = m"
      and nocomma: "\<forall>x\<in>set extra. CHR '','' \<notin> set x"
  shows "merge_modules (merge_modules r extra) extra = merge_modules r extra"
proof -
  let ?L = "merged_names r extra"
  have L: "?L = sort (filter (\<lambda>m. m \<noteq> []) (remdups (split_chr CHR '','' r @ extra)))"
    using plain by (rule merged_names_plain)
  have setL: "set ?L = {m \<in> set (split_chr CHR '','' r) \<union> set extra. m \<noteq> []}"
    unfolding L by auto
  have distL: "distinct ?L"
    unfolding L by simp
  have split: "{m \<in> set (split_chr CHR '','' (join '','' ?L)). m \<noteq> []} = set ?L"
  proof (cases "?L = []")
    case True
    then show ?thesis by simp
  next
    case False
    then have "split_chr CHR '','' (join '','' ?L) = ?L"
      using merged_names_no_comma[OF nocomma] by (simp add: split_chr_join)
    then show ?thesis using setL by auto
  qed
  have plain2: "\<forall>m\<in>set (split_chr CHR '','' (join '','' ?L)) \<union> set extra. strip m = m"
  proof
    fix m assume m: "m \<in> set (split_chr CHR '','' (join '','' ?L)) \<union> set extra"
    show "strip m = m"
    proof (cases "m = []")
      case True
      then show ?thesis by (simp add: strip_def)
    next
      case False
      then have "m \<in> set ?L \<or> m \<in> set extra"
        using m split by blast
      then show ?thesis
        using setL plain by auto
    qed
  qed
  let ?M = "merged_names (join '','' ?L) extra"
  have M: "?M = sort (filter (\<lambda>m. m \<noteq> []) (remdups (split_chr CHR '','' (join '','' ?L) @ extra)))"
    using plain2 by (rule merged_names_plain)
  have "set ?M = {m \<in> set (split_chr CHR '','' (join '','' ?L)). m \<noteq> []} \<union> {m \<in> set extra. m \<noteq> []}"
    unfolding M by auto
  also have "\<dots> = set ?L"
    unfolding split using setL by auto
  finally have "set ?M = set ?L" .
  moreover have "sorted ?M" "distinct ?M"
    unfolding M by simp_all
  ultimately have "?M = ?L"
    using distL merged_names_sorted[of r extra] by (intro sorted_distinct_set_unique) auto
  then show ?thesis
    by (simp add: merge_modules_def)
qed

text \<open>
  C7, as the code has it. The result of \<^verbatim>\<open>merge_modules\<close> depends only on the set of
  the extras, so neither their order nor repeating them in the list changes it; it joins,
  in ascending order, the stripped names of the non-blank entries among the
  comma-separated pieces of \<open>analyzed\<close> and the extras. Merging the same extras into the
  result once more gives the same result when every piece of \<open>analyzed\<close> and every extra
  is free of surrounding whitespace and no extra contains a comma.
\<close>

theorem merge_modules_extra:
  "(set extra' = set extra \<longrightarrow> merge_modules r extra' = merge_modules r extra)
   \<and> merge_modules r (extra @ extra) = merge_modules r extra
   \<and> merge_modules r extra = join '','' (merged_names r extra)
   \<and> sorted (merged_names r extra)
   \<and> set (merged_names r extra) = strip ` {m \<in> set (split_chr CHR '','' r) \<union> set extra. strip m \<noteq> []}
   \<and> ((\<forall>m\<in>set (split_chr CHR '','' r) \<union> set extra. strip m = m) \<and> (\<forall>x\<in>set extra. CHR '','' \<notin> set x)
        \<longrightarrow> merge_modules (merge_modules r extra) extra = merge_modules r extra)"
proof (intro conjI impI)
  assume "set extra' = set extra"
  then show "merge_modules r extra' = merge_modules r extra"
    unfolding merge_modules_def by (simp only: merged_names_set_cong [of extra' extra r])
next
  show "merge_modules r (extra @ extra) = merge_modules r extra"
    unfolding merge_modules_def by (simp add: merged_names_set_cong [of "extra @ extra" extra r])
next
  show "merge_modules r extra = join '','' (merged_names r extra)"
    by (simp add: merge_modules_def)
next
  show "sorted (merged_names r extra)"
    by (rule merged_names_sorted)
next
  show "set (merged_names r extra) = strip ` {m \<in> set (split_chr CHR '','' r) \<union> set extra. strip m \<noteq> []}"
    by (rule set_merged_names)
next
  assume "(\<forall>m\<in>set (split_chr CHR '','' r) \<union> set extra. strip m = m) \<and> (\<forall>x\<in>set extra. CHR '','' \<notin> set x)"
  then show "merge_modules (merge_modules r extra) extra = merge_modules r extra"
    by (simp add: merge_modules_twice)
qed

theorem merge_modules_extra_witness:
  "merge_modules ''java.sql,java.base'' [''java.xml'', ''java.base''] = ''java.base,java.sql,java.xml''
   \<and> merge_modules ''java.sql,java.base'' [''java.base'', ''java.xml''] = ''java.base,java.sql,java.xml''
   \<and> merge_modules ''java.base,java.sql,java.xml'' [''java.xml'', ''java.base''] = ''java.base,java.sql,java.xml''"
proof -
  note inst = merge_modules_extra [of "[''java.base'', ''java.xml'']" "[''java.xml'', ''java.base'']" "''java.sql,java.base''"]
  have computed: "merge_modules ''java.sql,java.base'' [''java.xml'', ''java.base''] = ''java.base,java.sql,java.xml''"
    by code_simp
  have same_set: "set [''java.base'', ''java.xml''] = set [''java.xml'', ''java.base'']"
    by (simp add: insert_commute)
  have "set [''java.base'', ''java.xml''] = set [''java.xml'', ''java.base'']
          \<longrightarrow> merge_modules ''java.sql,java.base'' [''java.base'', ''java.xml'']
              = merge_modules ''java.sql,java.base'' [''java.xml'', ''java.base'']"
    using inst by (rule conjunct1)
  then have swapped: "merge_modules ''java.sql,java.base'' [''java.base'', ''java.xml'']
      = merge_modules ''java.sql,java.base'' [''java.xml'', ''java.base'']"
    using same_set by (rule mp)
  have plain: "(\<forall>m\<in>set (split_chr CHR '','' ''java.sql,java.base'') \<union> set [''java.xml'', ''java.base'']. strip m = m)
      \<and> (\<forall>x\<in>set [''java.xml'', ''java.base'']. CHR '','' \<notin> set x)"
    by (simp add: strip_def isspace_def)
  have twice: "merge_modules (merge_modules ''java.sql,java.base'' [''java.xml'', ''java.base'']) [''java.xml'', ''java.base'']
      = merge_modules ''java.sql,java.base'' [''java.xml'', ''java.base'']"
    using inst [THEN conjunct2, THEN conjunct2, THEN conjunct2, THEN conjunct2, THEN conjunct2] plain
    by (rule mp)
  show ?thesis
    using swapped twice unfolding computed by simp
qed

text \<open>
  C7 as stated fails for an extra that contains a comma: \<^verbatim>\<open>merge_modules\<close> passes it
  through as one name, and the second merge splits it.
\<close>

theorem merge_modules_twice_counterexample:
  "merge_modules ''a'' [''b,c''] = ''a,b,c''
   \<and> merge_modules (merge_modules ''a'' [''b,c'']) [''b,c''] = ''a,b,b,c,c''"
  by code_simp

section \<open>Resolution with all modules\<close>

lemma hd_split_chr: "hd (split_chr c s) = takeWhile (\<lambda>d. d \<noteq> c) s"
  by (induction s) (auto split: list.splits simp: split_chr_nonempty)

lemma list_all_modules_result:
  "list_all_modules e jdk w =
     ((case run_proc e [get_bin jdk ''java'', ''--list-modules''] (entries w) of
         Inl NonZeroExit \<Rightarrow> Inl CalledProcessError
       | Inl CannotStart \<Rightarrow> Inl OSError
       | Inr out \<Rightarrow> Inr (join '','' (all_module_names out))),
      w\<lparr>calls := calls w @ [[get_bin jdk ''java'', ''--list-modules'']]\<rparr>)"
  by (simp add: list_all_modules_def check_output_def split: sum.splits proc_failure.splits)

lemma resolve_use_all_result:
  assumes "all_modules a"
  shows "resolve e jdk a w =
     ((case run_proc e [get_bin jdk ''java'', ''--list-modules''] (entries w) of
         Inl NonZeroExit \<Rightarrow> Inl CalledProcessError
       | Inl CannotStart \<Rightarrow> Inl OSError
       | Inr out \<Rightarrow> Inr (merge_modules (join '','' (all_module_names out))
                           (case extra_modules a of None \<Rightarrow> [] | Some xs \<Rightarrow> xs))),
      w\<lparr>calls := calls w @ [[get_bin jdk ''java'', ''--list-modules'']]\<rparr>)"
  using assms
  by (simp add: resolve_def bindE_def analyze_def list_all_modules_result
      split: sum.splits proc_failure.splits)

lemma merge_modules_listing:
  assumes "sorted L" and "distinct L"
      and "\<forall>n\<in>set L. n \<noteq> [] \<and> strip n = n \<and> CHR '','' \<notin> set n"
  shows "merge_modules (join '','' L) [] = join '','' L"
proof (cases "L = []")
  case True
  then show ?thesis
    by (simp add: merge_modules_def merged_names_def strip_def)
next
  case False
  then have split: "split_chr CHR '','' (join '','' L) = L"
    using assms(3) by (simp add: split_chr_join)
  have "filter (\<lambda>m. m \<noteq> []) L = L"
    using assms(3) by (simp add: filter_id_conv)
  moreover have "map strip (filter (\<lambda>m. strip m \<noteq> []) L) = filter (\<lambda>m. m \<noteq> []) L"
    using assms(3) by (intro map_filter_strip_plain) simp
  ultimately have "map strip (filter (\<lambda>m. strip m \<noteq> []) L) = L"
    by simp
  then have "merged_names (join '','' L) [] = L"
    using assms(1,2) by (simp add: merged_names_def split distinct_remdups_id sort_key_id_if_sorted)
  then show ?thesis
    by (simp add: merge_modules_def)
qed

lemma sample_listing:
  "run_proc (sample_env lists_modules None) [get_bin sample_jdk ''java'', ''--list-modules'']
     (entries sample_world) = Inr modules_listing"
  by (simp add: sample_env_def lists_modules_def)

lemma sample_listing_names: "all_module_names modules_listing = [''java.base'', ''java.sql'']"
  by code_simp

text \<open>
  C6, as the code has it. With \<open>use_all\<close> set, \<^verbatim>\<open>analyze\<close> is \<^verbatim>\<open>list_all_modules\<close>,
  whatever the archive: the only subprocess of the resolution is \<^verbatim>\<open>java --list-modules\<close>,
  so the dependency inspector is not called, and the listing joins the names of its
  non-blank lines, each cut at its first \<open>@\<close>, without duplicates and in ascending order.
  The extra modules are merged into that listing afterwards: the resolved set is
  \<^verbatim>\<open>merge_modules\<close> of the listing and the extras, and it is the listing itself when no
  extras are given and the listed names are non-empty, free of surrounding whitespace and
  of commas.
\<close>

theorem resolve_use_all:
  assumes "all_modules a"
  shows "analyze e jdk (jar_file a) (all_modules a) w = list_all_modules e jdk w
   \<and> calls (snd (resolve e jdk a w)) = calls w @ [[get_bin jdk ''java'', ''--list-modules'']]
   \<and> (run_proc e [get_bin jdk ''java'', ''--list-modules''] (entries w) = Inr out \<longrightarrow>
        fst (list_all_modules e jdk w) = Inr (join '','' (all_module_names out))
        \<and> fst (resolve e jdk a w)
            = Inr (merge_modules (join '','' (all_module_names out))
                     (case extra_modules a of None \<Rightarrow> [] | Some xs \<Rightarrow> xs))
        \<and> ((extra_modules a = None \<or> extra_modules a = Some [])
             \<and> (\<forall>n\<in>set (all_module_names out). n \<noteq> [] \<and> strip n = n \<and> CHR '','' \<notin> set n)
             \<longrightarrow> fst (resolve e jdk a w) = fst (list_all_modules e jdk w)))
   \<and> set (all_module_names out)
       = set (map (takeWhile (\<lambda>c. c \<noteq> CHR ''@'')) (filter (\<lambda>l. strip l \<noteq> []) (splitlines out)))
   \<and> distinct (all_module_names out) \<and> sorted (all_module_names out)"
proof (intro conjI impI)
  show "analyze e jdk (jar_file a) (all_modules a) w = list_all_modules e jdk w"
    using assms by (simp add: analyze_def)
  show "calls (snd (resolve e jdk a w)) = calls w @ [[get_bin jdk ''java'', ''--list-modules'']]"
    by (simp add: resolve_use_all_result[OF assms])
  show "set (all_module_names out)
       = set (map (takeWhile (\<lambda>c. c \<noteq> CHR ''@'')) (filter (\<lambda>l. strip l \<noteq> []) (splitlines out)))"
    by (simp add: all_module_names_def py_sorted_set_props hd_split_chr)
  show "distinct (all_module_names out)" "sorted (all_module_names out)"
    by (simp_all add: all_module_names_def py_sorted_set_props)
next
  assume out: "run_proc e [get_bin jdk ''java'', ''--list-modules''] (entries w) = Inr out"
  show listed: "fst (list_all_modules e jdk w) = Inr (join '','' (all_module_names out))"
    by (simp add: list_all_modules_result out)
  show resolved: "fst (resolve e jdk a w)
            = Inr (merge_modules (join '','' (all_module_names out))
                     (case extra_modules a of None \<Rightarrow> [] | Some xs \<Rightarrow> xs))"
    by (simp add: resolve_use_all_result[OF assms] out)
  assume plain: "(extra_modules a = None \<or> extra_modules a = Some [])
             \<and> (\<forall>n\<in>set (all_module_names out). n \<noteq> [] \<and> strip n = n \<and> CHR '','' \<notin> set n)"
  then have "(case extra_modules a of None \<Rightarrow> [] | Some xs \<Rightarrow> xs) = []"
    by auto
  moreover have "merge_modules (join '','' (all_module_names out)) [] = join '','' (all_module_names out)"
    using plain by (intro merge_modules_listing) (simp_all add: all_module_names_def py_sorted_set_props)
  ultimately show "fst (resolve e jdk a w) = fst (list_all_modules e jdk w)"
    using listed resolved by simp
qed

theorem resolve_use_all_witness:
  "fst (resolve (sample_env lists_modules None) sample_jdk all_modules_only_args sample_world)
     = Inr ''java.base,java.sql''
   \<and> fst (list_all_modules (sample_env lists_modules None) sample_jdk sample_world)
     = Inr ''java.base,java.sql''
   \<and> calls (snd (resolve (sample_env lists_modules None) sample_jdk all_modules_only_args sample_world))
     = [[''/usr/lib/jvm/bin/java'', ''--list-modules'']]"
proof -
  have all: "all_modules all_modules_only_args"
    by (simp add: all_modules_only_args_def)
  note inst = resolve_use_all [OF all, of "sample_env lists_modules None" sample_jdk sample_world
      modules_listing]
  have listed: "fst (list_all_modules (sample_env lists_modules None) sample_jdk sample_world)
      = Inr (join '','' (all_module_names modules_listing))"
    using inst [THEN conjunct2, THEN conjunct2, THEN conjunct1, THEN mp, OF sample_listing]
    by (rule conjunct1)
  have "(extra_modules all_modules_only_args = None \<or> extra_modules all_modules_only_args = Some [])
      \<and> (\<forall>n\<in>set (all_module_names modules_listing). n \<noteq> [] \<and> strip n = n \<and> CHR '','' \<notin> set n)"
    by (simp add: all_modules_only_args_def sample_listing_names strip_def isspace_def)
  then have same: "fst (resolve (sample_env lists_modules None) sample_jdk all_modules_only_args sample_world)
      = fst (list_all_modules (sample_env lists_modules None) sample_jdk sample_world)"
    by (rule inst [THEN conjunct2, THEN conjunct2, THEN conjunct1, THEN mp, OF sample_listing,
          THEN conjunct2, THEN conjunct2, THEN mp])
  have calls: "calls (snd (resolve (sample_env lists_modules None) sample_jdk all_modules_only_args sample_world))
      = calls sample_world @ [[get_bin sample_jdk ''java'', ''--list-modules'']]"
    using inst by (rule conjunct2 [THEN conjunct1])
  show ?thesis
    using listed same calls by (simp add: sample_listing_names sample_get_bin sample_world_def)
qed

text \<open>
  C6 as stated fails for an extra module that is not installed: with \<open>use_all\<close> set the
  resolved set holds it beside the listed modules.
\<close>

theorem resolve_use_all_extras_counterexample:
  "fst (resolve (sample_env lists_modules None) sample_jdk all_modules_args sample_world)
     = Inr ''com.acme.extra,java.base,java.sql''
   \<and> fst (list_all_modules (sample_env lists_modules None) sample_jdk sample_world)
     = Inr ''java.base,java.sql''"
  by code_simp

section \<open>Locating the toolchain\<close>

lemma path_parent_nonempty: "path_parent p \<noteq> []"
  by (simp add: path_parent_def Let_def)

lemma detect_jdk_empty:
  "fst (detect_jdk e w) = [] \<longleftrightarrow>
     (case run_proc e [''java'', ''-version''] (entries w) of
        Inl err \<Rightarrow> True
      | Inr out \<Rightarrow> str_in VERSION_1 out \<or> which e ''java'' = None \<or> which e ''java'' = Some [])"
  by (auto simp: detect_jdk_def check_output_def path_parent_nonempty
      split: sum.splits option.splits proc_failure.splits)

lemma old_version_text_is_old: "str_in VERSION_1 old_version_text"
  by code_simp

text \<open>
  C8, as the code has it. The constructor of \<^verbatim>\<open>JDKManager\<close> fails, always with
  \<^verbatim>\<open>JDK not found\<close>, exactly when no custom path (or an empty one) was given and the
  detection finds nothing: the version probe cannot run or exits non-zero, its output
  contains \<^verbatim>\<open>version "1.\<close>, or no \<^verbatim>\<open>java\<close> is on the search path. A non-empty
  custom path is taken as it is: no probe runs and no version is checked.
\<close>

theorem JDKManager_init_failure:
  "(fst (JDKManager_init e custom_path w) = Inl JDKNotFound \<longleftrightarrow>
      (custom_path = None \<or> custom_path = Some [])
      \<and> (case run_proc e [''java'', ''-version''] (entries w) of
             Inl err \<Rightarrow> True
           | Inr out \<Rightarrow> str_in VERSION_1 out \<or> which e ''java'' = None \<or> which e ''java'' = Some []))
   \<and> (isl (fst (JDKManager_init e custom_path w)) \<longrightarrow> fst (JDKManager_init e custom_path w) = Inl JDKNotFound)
   \<and> (p \<noteq> [] \<longrightarrow> JDKManager_init e (Some p) w = (Inr \<lparr>jdk_dir = p\<rparr>, w))"
proof (intro conjI)
  show "fst (JDKManager_init e custom_path w) = Inl JDKNotFound \<longleftrightarrow>
      (custom_path = None \<or> custom_path = Some [])
      \<and> (case run_proc e [''java'', ''-version''] (entries w) of
             Inl err \<Rightarrow> True
           | Inr out \<Rightarrow> str_in VERSION_1 out \<or> which e ''java'' = None \<or> which e ''java'' = Some [])"
    unfolding detect_jdk_empty [symmetric]
    by (cases "detect_jdk e w") (auto simp: JDKManager_init_def split: option.splits)
  show "isl (fst (JDKManager_init e custom_path w)) \<longrightarrow> fst (JDKManager_init e custom_path w) = Inl JDKNotFound"
    by (cases "detect_jdk e w") (auto simp: JDKManager_init_def split: option.splits)
  show "p \<noteq> [] \<longrightarrow> JDKManager_init e (Some p) w = (Inr \<lparr>jdk_dir = p\<rparr>, w)"
    by (simp add: JDKManager_init_def)
qed

theorem JDKManager_init_failure_witness:
  "fst (JDKManager_init (sample_env old_java None) None sample_world) = Inl JDKNotFound
   \<and> JDKManager_init (sample_env old_java None) (Some ''/opt/jdk8'') sample_world
       = (Inr \<lparr>jdk_dir = ''/opt/jdk8''\<rparr>, sample_world)"
proof -
  note inst = JDKManager_init_failure [of "sample_env old_java None" None sample_world "''/opt/jdk8''"]
  have probe: "run_proc (sample_env old_java None) [''java'', ''-version''] (entries sample_world)
      = Inr old_version_text"
    by (simp add: sample_env_def old_java_def)
  have "(None = None \<or> None = Some [])
      \<and> (case run_proc (sample_env old_java None) [''java'', ''-version''] (entries sample_world) of
             Inl err \<Rightarrow> True
           | Inr out \<Rightarrow> str_in VERSION_1 out \<or> which (sample_env old_java None) ''java'' = None
                        \<or> which (sample_env old_java None) ''java'' = Some [])"
    by (simp add: probe old_version_text_is_old)
  then have fails: "fst (JDKManager_init (sample_env old_java None) None sample_world) = Inl JDKNotFound"
    by (rule inst [THEN conjunct1, THEN iffD2])
  have "''/opt/jdk8'' \<noteq> []"
    by simp
  then have custom: "JDKManager_init (sample_env old_java None) (Some ''/opt/jdk8'') sample_world
       = (Inr \<lparr>jdk_dir = ''/opt/jdk8''\<rparr>, sample_world)"
    by (rule inst [THEN conjunct2, THEN conjunct2, THEN mp])
  show ?thesis
    using fails custom by (rule conjI)
qed

text \<open>
  C8 as stated fails for a custom path: on a host whose \<^verbatim>\<open>java -version\<close> reports a
  legacy 1.x version, the constructor given a custom path succeeds.
\<close>

theorem custom_path_skips_version_check_counterexample:
  "str_in VERSION_1 old_version_text
   \<and> run_proc (sample_env old_java None) [''java'', ''-version''] (entries sample_world)
       = Inr old_version_text
   \<and> fst (JDKManager_init (sample_env old_java None) (Some ''/opt/jdk8'') sample_world)
       = Inr \<lparr>jdk_dir = ''/opt/jdk8''\<rparr>"
  by (simp add: JDKManager_init_def sample_env_def old_java_def old_version_text_is_old)

section \<open>The analysis targets of a web archive\<close>

lemma inside_path_join: "inside d (path_join d x)"
  by (simp add: inside_def path_join_def)

lemma inside_path_join2: "inside d (path_join (path_join d x) y)"
  by (simp add: inside_def path_join_def)

lemma lib_jars_inside: "t \<in> set (lib_jars (path_join (path_join d x) y) w) \<Longrightarrow> inside d t"
proof -
  assume "t \<in> set (lib_jars (path_join (path_join d x) y) w)"
  then have "prefix (path_join (path_join d x) y @ ''/'') t"
    by (simp add: lib_jars_def)
  moreover have "prefix (d @ ''/'') (path_join (path_join d x) y @ ''/'')"
    by (simp add: path_join_def)
  ultimately have "prefix (d @ ''/'') t"
    by (rule prefix_order.trans[rotated])
  then show ?thesis by (simp add: inside_def)
qed

lemma not_exists_rmtree: "inside d t \<Longrightarrow> \<not> exists (rmtree d w) t"
  by (simp add: exists_def rmtree_def)

lemma extract_war_targets_gone:
  assumes ex: "extract_war e p w = (Inr ts, w1)" and t: "t \<in> set ts"
  shows "\<not> exists w1 t"
proof (cases "zip_tree e p")
  case (Inl err)
  then show ?thesis
    using ex by (simp add: extract_war_def with_tmpdir_def mkdtemp_def Let_def)
next
  case (Inr tree)
  let ?d = "tmp_name (next_tmp w)"
  let ?w2 = "create (map (path_join ?d) tree)
               (w\<lparr>next_tmp := Suc (next_tmp w), entries := ?d # entries w\<rparr>)"
  have w1: "w1 = rmtree ?d ?w2"
    and ts: "ts = (if exists ?w2 (path_join (path_join ?d ''WEB-INF'') ''classes'')
                   then [path_join (path_join ?d ''WEB-INF'') ''classes''] else [])
                @ (if exists ?w2 (path_join (path_join ?d ''WEB-INF'') ''lib'')
                   then lib_jars (path_join (path_join ?d ''WEB-INF'') ''lib'') ?w2 else [])"
    using ex Inr by (simp_all add: extract_war_def with_tmpdir_def mkdtemp_def Let_def)
  have "inside ?d t"
    using t unfolding ts by (auto simp: inside_path_join2 lib_jars_inside split: if_splits)
  then show ?thesis
    unfolding w1 by (rule not_exists_rmtree)
qed

lemma sample_is_war: "is_war ''/home/u/site.war''"
  by (simp add: is_war_def endswith_def lower_def lower_chr_def suffix_to_prefix)

lemma sample_prepare_targets:
  "prepare_targets (sample_env (proc_by_flag (Inr []) (Inr [])) None) ''/home/u/site.war'' sample_world
     = (Inr [''/tmp/tmp/WEB-INF/classes'', ''/tmp/tmp/WEB-INF/lib/a.jar'', ''/tmp/tmp/WEB-INF/lib/b.jar''],
        sample_world\<lparr>next_tmp := 1\<rparr>)"
  by code_simp

text \<open>
  C2. The claim: the targets of a web archive (the extracted classes directory first, then
  the jars of the library directory) exist while the inspector runs, the scratch directory
  being deleted only when the resolution call ends. In \<^verbatim>\<open>_extract_war\<close> the
  \<^verbatim>\<open>return targets\<close> sits inside the \<^verbatim>\<open>with tempfile.TemporaryDirectory()\<close> block,
  so the directory is removed when \<^verbatim>\<open>_extract_war\<close> returns: for every web archive,
  none of the targets handed to \<^verbatim>\<open>_run_jdeps\<close> exists on the disk the inspector sees.
\<close>

theorem war_targets_deleted_before_inspection:
  assumes "is_war p" and "prepare_targets e p w = (Inr ts, w1)"
  shows "(\<forall>t\<in>set ts. \<not> exists w1 t) \<and> analyze e jdk p False w = run_jdeps e jdk ts w1"
proof
  have "extract_war e p w = (Inr ts, w1)"
    using assms by (simp add: prepare_targets_def)
  then show "\<forall>t\<in>set ts. \<not> exists w1 t"
    using extract_war_targets_gone by blast
  show "analyze e jdk p False w = run_jdeps e jdk ts w1"
    using assms(2) by (simp add: analyze_def)
qed

theorem war_targets_deleted_before_inspection_witness:
  "prepare_targets (sample_env (proc_by_flag (Inr []) (Inr [])) None) ''/home/u/site.war'' sample_world
     = (Inr [''/tmp/tmp/WEB-INF/classes'', ''/tmp/tmp/WEB-INF/lib/a.jar'', ''/tmp/tmp/WEB-INF/lib/b.jar''],
        sample_world\<lparr>next_tmp := 1\<rparr>)
   \<and> \<not> exists (sample_world\<lparr>next_tmp := 1\<rparr>) ''/tmp/tmp/WEB-INF/classes''
   \<and> \<not> exists (sample_world\<lparr>next_tmp := 1\<rparr>) ''/tmp/tmp/WEB-INF/lib/a.jar''
   \<and> \<not> exists (sample_world\<lparr>next_tmp := 1\<rparr>) ''/tmp/tmp/WEB-INF/lib/b.jar''"
  using war_targets_deleted_before_inspection [OF sample_is_war sample_prepare_targets]
    sample_prepare_targets
  by simp

section \<open>Validation of the entry point\<close>

lemma has_main_class_result:
  "fst (has_main_class e jdk p w) =
     (if run_proc e [get_bin jdk ''jar'', ''xf'', p, ''META-INF/MANIFEST.MF''] (tmp_name (next_tmp w) # entries w) = Inl CannotStart
      then Inl OSError
      else Inr (case manifest_text e p of None \<Rightarrow> False | Some text \<Rightarrow> str_in ''Main-Class'' text))"
  by (simp add: has_main_class_def with_tmpdir_def mkdtemp_def check_output_def Let_def
      split: sum.splits proc_failure.splits option.splits)

lemma has_main_class_calls:
  "calls (snd (has_main_class e jdk p w)) = calls w @ [[get_bin jdk ''jar'', ''xf'', p, ''META-INF/MANIFEST.MF'']]"
  by (simp add: has_main_class_def with_tmpdir_def mkdtemp_def check_output_def Let_def rmtree_def create_def
      split: sum.splits proc_failure.splits option.splits)

lemma validate_entry_point:
  assumes "exists w p"
  shows "(lower (path_suffix p) = ''.jar'' \<longrightarrow>
            fst (validate e jdk p w) =
              (if run_proc e [get_bin jdk ''jar'', ''xf'', p, ''META-INF/MANIFEST.MF'']
                    (tmp_name (next_tmp w) # entries w) = Inl CannotStart
               then Inl OSError
               else if (case manifest_text e p of None \<Rightarrow> False | Some text \<Rightarrow> str_in ''Main-Class'' text)
               then Inr () else Inl MissingEntryPoint)
            \<and> calls (snd (validate e jdk p w))
                = calls w @ [[get_bin jdk ''jar'', ''xf'', p, ''META-INF/MANIFEST.MF'']])
       \<and> (lower (path_suffix p) = ''.war'' \<longrightarrow> validate e jdk p w = (Inr (), w))"
proof (intro conjI impI)
  assume jar: "lower (path_suffix p) = ''.jar''"
  obtain r w1 where h: "has_main_class e jdk p w = (r, w1)"
    by (cases "has_main_class e jdk p w")
  have r: "r = fst (has_main_class e jdk p w)" and w1: "calls w1 = calls (snd (has_main_class e jdk p w))"
    using h by simp_all
  show "fst (validate e jdk p w) =
              (if run_proc e [get_bin jdk ''jar'', ''xf'', p, ''META-INF/MANIFEST.MF'']
                    (tmp_name (next_tmp w) # entries w) = Inl CannotStart
               then Inl OSError
               else if (case manifest_text e p of None \<Rightarrow> False | Some text \<Rightarrow> str_in ''Main-Class'' text)
               then Inr () else Inl MissingEntryPoint)"
    using assms jar r[unfolded has_main_class_result] h
    by (auto simp: validate_def split: sum.splits)
  show "calls (snd (validate e jdk p w)) = calls w @ [[get_bin jdk ''jar'', ''xf'', p, ''META-INF/MANIFEST.MF'']]"
    using assms jar w1[unfolded has_main_class_calls] h
    by (auto simp: validate_def split: sum.splits)
next
  assume "lower (path_suffix p) = ''.war''"
  then show "validate e jdk p w = (Inr (), w)"
    using assms by (simp add: validate_def)
qed

text \<open>
  C5. The claim: a plain archive passes validation only if its manifest declares the
  entry-point attribute, looked up by its exact key \<^verbatim>\<open>Main-Class\<close>; the missing-entry-point
  error is raised when the manifest lacks that key. \<^verbatim>\<open>_has_main_class\<close>, documented as
  checking that the archive has the attribute, tests instead whether the characters
  \<^verbatim>\<open>Main-Class\<close> occur anywhere in the manifest text: a plain archive whose manifest has no
  \<^verbatim>\<open>Main-Class\<close> attribute, only an \<^verbatim>\<open>Original-Main-Class\<close> one, passes validation.
\<close>

theorem validate_accepts_without_entry_point:
  "\<not> spec_declares_key ''Main-Class'' odd_manifest
   \<and> fst (validate (sample_env (proc_by_flag (Inr []) (Inr [])) (Some odd_manifest)) sample_jdk
            ''/home/u/app.jar'' sample_world) = Inr ()"
  by code_simp

section \<open>The kind of an archive\<close>





section \<open>Clean-up of the scratch directories\<close>

lemma adds_onlyI: "(\<And>w. set (entries (snd (m w))) \<subseteq> set (entries w) \<union> A) \<Longrightarrow> adds_only A m"
  by (simp add: adds_only_def)

lemma adds_onlyD: "adds_only A m \<Longrightarrow> set (entries (snd (m w))) \<subseteq> set (entries w) \<union> A"
  by (simp add: adds_only_def)

lemma adds_only_bindE:
  assumes "adds_only A m" and "\<And>x. adds_only A (f x)"
  shows "adds_only A (bindE m f)"
proof (rule adds_onlyI)
  fix w :: world
  obtain r w1 where m: "m w = (r, w1)"
    by (cases "m w")
  have 1: "set (entries w1) \<subseteq> set (entries w) \<union> A"
    using adds_onlyD[OF assms(1), of w] m by simp
  show "set (entries (snd (bindE m f w))) \<subseteq> set (entries w) \<union> A"
  proof (cases r)
    case (Inl err)
    then show ?thesis using 1 m by (simp add: bindE_def)
  next
    case (Inr x)
    have "set (entries (snd (f x w1))) \<subseteq> set (entries w1) \<union> A"
      by (rule adds_onlyD[OF assms(2)])
    then show ?thesis using 1 m Inr by (auto simp: bindE_def)
  qed
qed

lemma inside_self: "inside d d"
  by (simp add: inside_def)

lemma adds_only_with_tmpdir:
  assumes "\<And>d. adds_only ({p. inside d p} \<union> A) (body d)"
  shows "adds_only A (with_tmpdir body)"
proof (rule adds_onlyI)
  fix w :: world
  let ?d = "tmp_name (next_tmp w)"
  let ?w1 = "w\<lparr>next_tmp := Suc (next_tmp w), entries := ?d # entries w\<rparr>"
  obtain r w2 where b: "body ?d ?w1 = (r, w2)"
    by (cases "body ?d ?w1")
  have "set (entries w2) \<subseteq> set (entries ?w1) \<union> ({p. inside ?d p} \<union> A)"
    using adds_onlyD[OF assms, of ?d ?w1] b by simp
  then have "set (entries (rmtree ?d w2)) \<subseteq> set (entries w) \<union> A"
    by (auto simp: rmtree_def inside_self)
  then show "set (entries (snd (with_tmpdir body w))) \<subseteq> set (entries w) \<union> A"
    by (simp add: with_tmpdir_def mkdtemp_def Let_def b)
qed

lemma adds_only_has_main_class: "adds_only A (has_main_class e jdk p)"
  unfolding has_main_class_def
proof (rule adds_only_with_tmpdir, rule adds_onlyI)
  fix d :: string and w :: world
  show "set (entries (snd (case check_output e [get_bin jdk ''jar'', ''xf'', p, ''META-INF/MANIFEST.MF''] w of
          (out, w1) \<Rightarrow>
            if out = Inl OSError then (Inl OSError, w1)
            else (let mf_path = path_join (path_join d ''META-INF'') ''MANIFEST.MF''
                  in case manifest_text e p of
                       None \<Rightarrow> (Inr False, w1)
                     | Some text \<Rightarrow>
                         (Inr (str_in ''Main-Class'' text),
                          create [path_join d ''META-INF'', mf_path] w1)))))
        \<subseteq> set (entries w) \<union> ({p. inside d p} \<union> A)"
    by (auto simp: check_output_def create_def Let_def inside_path_join inside_path_join2
        split: option.splits)
qed

lemma adds_only_validate: "adds_only A (validate e jdk p)"
proof (rule adds_onlyI)
  fix w :: world
  have "set (entries (snd (has_main_class e jdk p w))) \<subseteq> set (entries w) \<union> A"
    by (rule adds_onlyD[OF adds_only_has_main_class])
  then show "set (entries (snd (validate e jdk p w))) \<subseteq> set (entries w) \<union> A"
    by (auto simp: validate_def split: prod.splits sum.splits)
qed

lemma adds_only_extract_war: "adds_only A (extract_war e p)"
  unfolding extract_war_def
  by (rule adds_only_with_tmpdir, rule adds_onlyI)
     (auto simp: create_def Let_def path_join_def inside_def split: sum.splits)

lemma entries_run_jdeps: "entries (snd (run_jdeps e jdk ts w)) = entries w"
  by (simp add: run_jdeps_def check_output_def split: sum.splits proc_failure.splits error.splits)

lemma entries_list_all_modules: "entries (snd (list_all_modules e jdk w)) = entries w"
  by (simp add: list_all_modules_def check_output_def split: sum.splits proc_failure.splits)

lemma adds_only_analyze: "adds_only A (analyze e jdk p use_all)"
proof (rule adds_onlyI)
  fix w :: world
  have "set (entries (snd (extract_war e p w))) \<subseteq> set (entries w) \<union> A"
    by (rule adds_onlyD[OF adds_only_extract_war])
  then show "set (entries (snd (analyze e jdk p use_all w))) \<subseteq> set (entries w) \<union> A"
    by (auto simp: analyze_def prepare_targets_def entries_run_jdeps entries_list_all_modules
        split: prod.splits sum.splits)
qed

lemma inside_below2: "prefix (path_join (path_join d x) y @ ''/'') p \<Longrightarrow> inside d p"
proof -
  assume "prefix (path_join (path_join d x) y @ ''/'') p"
  moreover have "prefix (d @ ''/'') (path_join (path_join d x) y @ ''/'')"
    by (simp add: path_join_def)
  ultimately have "prefix (d @ ''/'') p"
    by (rule prefix_order.trans[rotated])
  then show ?thesis by (simp add: inside_def)
qed

lemma inside_join_below: "inside d (path_join (path_join d x) y @ ''/'' @ rest)"
  by (rule inside_below2[of d x y]) simp

lemma adds_only_jre_build: "adds_only ({p. inside d p} \<union> A) (jre_build e jdk (path_join d x) modules)"
proof (rule adds_onlyI)
  fix w :: world
  have "\<And>t. inside d (path_join (path_join d x) t)"
    by (rule inside_path_join2)
  then show "set (entries (snd (jre_build e jdk (path_join d x) modules w)))
      \<subseteq> set (entries w) \<union> ({p. inside d p} \<union> A)"
    by (auto simp: jre_build_def check_output_def create_def inside_path_join
        split: sum.splits proc_failure.splits)
qed

lemma entries_mkdir_exist_ok: "set (entries (mkdir_exist_ok d w)) \<subseteq> set (entries w) \<union> {d}"
  by (auto simp: mkdir_exist_ok_def create_def)

lemma adds_only_copy2: "inside d dst \<Longrightarrow> adds_only ({p. inside d p} \<union> A) (copy2 e src dst)"
  by (rule adds_onlyI) (auto simp: copy2_def create_def split: option.splits)

lemma copied_inside:
  assumes "prefix (src @ ''/'') p"
  shows "inside d (path_join (path_join d x) y @ drop (length src) p)"
proof -
  obtain rest where "p = src @ ''/'' @ rest"
    using assms by (auto simp: prefix_def)
  then have "drop (length src) p = ''/'' @ rest"
    by simp
  then show ?thesis
    using inside_join_below[of d x y rest] by simp
qed

lemma adds_only_copytree:
  "adds_only ({p. inside d p} \<union> A) (copytree e src (path_join (path_join d x) y))"
  by (rule adds_onlyI)
     (auto simp: copytree_def create_def inside_path_join2 copied_inside split: option.splits)

lemma entries_rmtree: "set (entries (rmtree d w)) \<subseteq> set (entries w)"
  by (auto simp: rmtree_def)

lemma adds_only_copytree_retry:
  "adds_only ({p. inside d p} \<union> A)
     (\<lambda>w2. case copytree e src (path_join (path_join d x) y) w2 of
              (Inl FileExistsError, w3) \<Rightarrow>
                 copytree e src (path_join (path_join d x) y) (rmtree (path_join (path_join d x) y) w3)
            | (Inl PermissionError, w3) \<Rightarrow> (Inl PermissionDenied, w3)
            | other \<Rightarrow> other)"
proof (rule adds_onlyI)
  fix w2 :: world
  let ?dst = "path_join (path_join d x) y"
  let ?B = "{p. inside d p} \<union> A"
  obtain r w3 where c: "copytree e src ?dst w2 = (r, w3)"
    by (cases "copytree e src ?dst w2")
  have "set (entries (snd (copytree e src ?dst w2))) \<subseteq> set (entries w2) \<union> ?B"
    by (rule adds_onlyD[OF adds_only_copytree])
  then have 1: "set (entries w3) \<subseteq> set (entries w2) \<union> ?B"
    using c by simp
  have "set (entries (snd (copytree e src ?dst (rmtree ?dst w3)))) \<subseteq> set (entries (rmtree ?dst w3)) \<union> ?B"
    by (rule adds_onlyD[OF adds_only_copytree])
  then have 2: "set (entries (snd (copytree e src ?dst (rmtree ?dst w3)))) \<subseteq> set (entries w2) \<union> ?B"
    using 1 entries_rmtree[of ?dst w3] by blast
  show "set (entries (snd (case copytree e src ?dst w2 of
              (Inl FileExistsError, w3) \<Rightarrow> copytree e src ?dst (rmtree ?dst w3)
            | (Inl PermissionError, w3) \<Rightarrow> (Inl PermissionDenied, w3)
            | other \<Rightarrow> other))) \<subseteq> set (entries w2) \<union> ?B"
    unfolding c using 1 2 by (simp split: sum.splits error.splits)
qed

lemma adds_only_write_launcher:
  "adds_only ({p. inside d p} \<union> A)
     (\<lambda>w4. case write_error e (path_join (path_join d x) y) of
              Some err \<Rightarrow> (Inl err, w4)
            | None \<Rightarrow> (Inr (path_join (path_join d x) y), create [path_join (path_join d x) y] w4))"
  by (rule adds_onlyI) (auto simp: create_def inside_path_join2 split: option.splits)

lemma adds_only_prepare: "adds_only ({p. inside d p} \<union> A) (prepare e d jar_path jre_dir)"
proof (rule adds_onlyI)
  fix w :: world
  let ?B = "{p. inside d p} \<union> A"
  let ?src = "path_join d ''src''"
  let ?rest = "bindE (copy2 e jar_path (path_join ?src (path_name jar_path)))
           (\<lambda>_. bindE (\<lambda>w2. case copytree e jre_dir (path_join ?src (path_name jre_dir)) w2 of
                               (Inl FileExistsError, w3) \<Rightarrow>
                                  copytree e jre_dir (path_join ?src (path_name jre_dir))
                                    (rmtree (path_join ?src (path_name jre_dir)) w3)
                             | (Inl PermissionError, w3) \<Rightarrow> (Inl PermissionDenied, w3)
                             | other \<Rightarrow> other)
           (\<lambda>_ w4. case write_error e (path_join ?src ''launcher.py'') of
                      Some err \<Rightarrow> (Inl err, w4)
                    | None \<Rightarrow> (Inr (path_join ?src ''launcher.py''),
                               create [path_join ?src ''launcher.py''] w4)))"
  have rest: "adds_only ?B ?rest"
    by (intro adds_only_bindE adds_only_copy2 adds_only_copytree_retry adds_only_write_launcher
        inside_path_join2)
  have "set (entries (mkdir_exist_ok ?src w)) \<subseteq> set (entries w) \<union> ?B"
    using entries_mkdir_exist_ok[of ?src w] inside_path_join[of d "''src''"] by auto
  moreover have "set (entries (snd (?rest (mkdir_exist_ok ?src w)))) \<subseteq> set (entries (mkdir_exist_ok ?src w)) \<union> ?B"
    by (rule adds_onlyD[OF rest])
  ultimately have "set (entries (snd (?rest (mkdir_exist_ok ?src w)))) \<subseteq> set (entries w) \<union> ?B"
    by blast
  then show "set (entries (snd (prepare e d jar_path jre_dir w))) \<subseteq> set (entries w) \<union> ?B"
    by (simp add: prepare_def Let_def)
qed

lemma adds_only_build_exe:
  "adds_only (B \<union> set (bundler_outputs output)) (build_exe e launcher output jre_name jar_name)"
  unfolding build_exe_def
  by (intro adds_only_bindE; rule adds_onlyI)
     (auto simp: check_output_def create_def bundler_outputs_def split: sum.splits proc_failure.splits option.splits)

lemma adds_only_after_mkdir:
  assumes "adds_only B m" and "d \<in> B"
  shows "adds_only B (\<lambda>w. m (mkdir_exist_ok d w))"
proof (rule adds_onlyI)
  fix w :: world
  have "set (entries (snd (m (mkdir_exist_ok d w)))) \<subseteq> set (entries (mkdir_exist_ok d w)) \<union> B"
    by (rule adds_onlyD[OF assms(1)])
  then show "set (entries (snd (m (mkdir_exist_ok d w)))) \<subseteq> set (entries w) \<union> B"
    using entries_mkdir_exist_ok[of d w] assms(2) by blast
qed

lemma adds_only_resolve: "adds_only A (resolve e jdk a)"
  unfolding resolve_def
  by (intro adds_only_bindE adds_only_analyze) (simp add: adds_only_def)

lemma adds_only_package_body:
  "adds_only ({p. inside d p} \<union> set (bundler_outputs (output_name e (jar_file a))))
     (package_body e jdk a d)"
  unfolding package_body_def Let_def
  by (intro adds_only_bindE adds_only_validate adds_only_resolve adds_only_jre_build
      adds_only_after_mkdir adds_only_prepare adds_only_build_exe) (simp add: inside_self)

lemma package_footprint:
  "set (entries (snd (package e jdk a w)))
     \<subseteq> set (entries w) \<union> set (bundler_outputs (output_name e (jar_file a)))"
  unfolding package_def
  by (rule adds_onlyD[OF adds_only_with_tmpdir]) (rule adds_only_package_body)

lemma path_name_no_slash: "CHR ''/'' \<notin> set (path_name p)"
proof -
  have "\<forall>c\<in>set (takeWhile (\<lambda>c. c \<noteq> CHR ''/'') (rev p)). c \<noteq> CHR ''/''"
    using set_takeWhileD by fastforce
  then show ?thesis by (auto simp: path_name_def)
qed

lemma output_name_no_slash: "CHR ''/'' \<notin> set (output_name e p)"
proof -
  have "set (path_stem p) \<subseteq> set (path_name p)"
    unfolding path_stem_def by (rule set_take_subset)
  then have "CHR ''/'' \<notin> set (path_stem p)"
    using path_name_no_slash by blast
  then show ?thesis by (simp add: output_name_def)
qed

lemma inside_tmp_name_slash: "inside (tmp_name k) p \<Longrightarrow> \<exists>rest. p = CHR ''/'' # rest"
  by (auto simp: inside_def tmp_name_def prefix_def)

lemma bundler_outputs_not_scratch:
  assumes "CHR ''/'' \<notin> set nm" and "p \<in> set (bundler_outputs nm)"
  shows "\<not> inside (tmp_name k) p"
proof
  assume "inside (tmp_name k) p"
  then obtain rest where "p = CHR ''/'' # rest"
    using inside_tmp_name_slash by blast
  then show False
    using assms by (cases nm) (auto simp: bundler_outputs_def bundler_scratch_def)
qed

lemma sample_world_fresh:
  "\<forall>k\<ge>next_tmp sample_world. \<forall>p\<in>set (entries sample_world). \<not> inside (tmp_name k) p"
  by (simp add: sample_world_def inside_def tmp_name_def)

lemma sample_package_run:
  "fst (package (sample_env (proc_by_flag (Inr ''java.base,java.logging'') (Inr [])) (Some good_manifest))
          sample_jdk sample_args sample_world) = Inr ()
   \<and> entries (snd (package (sample_env (proc_by_flag (Inr ''java.base,java.logging'') (Inr [])) (Some good_manifest))
          sample_jdk sample_args sample_world))
       = [''build'', ''app.spec'', ''dist'', ''dist/app'', ''/home/u/app.jar'', ''/home/u/site.war'']
   \<and> next_tmp (snd (package (sample_env (proc_by_flag (Inr ''java.base,java.logging'') (Inr [])) (Some good_manifest))
          sample_jdk sample_args sample_world)) = 2"
  by code_simp

text \<open>
  C9. Every temporary directory of a packaging run (the working directory with the runtime
  image and the staging area, the scratch of the manifest extraction, the scratch of the
  web-archive extraction) is gone, with everything below it, when \<^verbatim>\<open>package\<close> ends,
  whether it returns or raises: on a disk where the names \<^verbatim>\<open>mkdtemp\<close> is still to hand
  out are unused, no path at or below any such name exists after the run.
\<close>

theorem package_leaves_no_scratch:
  assumes "\<forall>k\<ge>next_tmp w. \<forall>p\<in>set (entries w). \<not> inside (tmp_name k) p"
  shows "\<forall>k\<ge>next_tmp w. \<forall>p\<in>set (entries (snd (package e jdk a w))). \<not> inside (tmp_name k) p"
proof (intro allI impI ballI)
  fix k p
  assume k: "next_tmp w \<le> k" and p: "p \<in> set (entries (snd (package e jdk a w)))"
  from p package_footprint[of e jdk a w]
  have "p \<in> set (entries w) \<or> p \<in> set (bundler_outputs (output_name e (jar_file a)))"
    by blast
  then show "\<not> inside (tmp_name k) p"
    using assms k bundler_outputs_not_scratch[OF output_name_no_slash] by blast
qed

theorem package_leaves_no_scratch_witness:
  "fst (package (sample_env (proc_by_flag (Inr ''java.base,java.logging'') (Inr [])) (Some good_manifest))
          sample_jdk sample_args sample_world) = Inr ()
   \<and> next_tmp (snd (package (sample_env (proc_by_flag (Inr ''java.base,java.logging'') (Inr [])) (Some good_manifest))
          sample_jdk sample_args sample_world)) = 2
   \<and> tmp_name 0 \<notin> set (entries (snd (package (sample_env (proc_by_flag (Inr ''java.base,java.logging'') (Inr [])) (Some good_manifest))
          sample_jdk sample_args sample_world)))
   \<and> tmp_name 1 \<notin> set (entries (snd (package (sample_env (proc_by_flag (Inr ''java.base,java.logging'') (Inr [])) (Some good_manifest))
          sample_jdk sample_args sample_world)))"
proof -
  note inst = package_leaves_no_scratch [OF sample_world_fresh,
      of "sample_env (proc_by_flag (Inr ''java.base,java.logging'') (Inr [])) (Some good_manifest)"
         sample_jdk sample_args]
  have "next_tmp sample_world \<le> 0" "next_tmp sample_world \<le> 1"
    by (simp_all add: sample_world_def)
  then have "tmp_name 0 \<notin> set (entries (snd (package (sample_env (proc_by_flag (Inr ''java.base,java.logging'') (Inr [])) (Some good_manifest))
          sample_jdk sample_args sample_world)))"
    and "tmp_name 1 \<notin> set (entries (snd (package (sample_env (proc_by_flag (Inr ''java.base,java.logging'') (Inr [])) (Some good_manifest))
          sample_jdk sample_args sample_world)))"
    using inst inside_self by blast+
  then show ?thesis
    using sample_package_run by simp
qed

end
